theory Spec2Isabelle
  imports Complex_Main
begin

section \<open>The portfolio ledger of script.js\<close>

text \<open>
  The application state of script.js is one object; the ledger is its \<open>portfolio\<close> part:
  \<^verbatim>\<open>portfolio: { baseCapital: 100000, availableFunds: 100000, holdings: {}, orders: [] }\<close>.
  A JavaScript number is an IEEE-754 double. The model holds a finite double as the real
  number it denotes (an integer where the source obtains it from \<open>parseInt\<close>), and NaN as
  \<open>None\<close> where the source can meet it. The object \<open>holdings\<close> is a map from its own
  property names to the holding objects, the array \<open>orders\<close> a list.
\<close>

subsection \<open>Arithmetic\<close>

text \<open>
  \<^verbatim>\<open>*\<close>, \<^verbatim>\<open>+\<close>, \<^verbatim>\<open>-\<close> and \<^verbatim>\<open>/\<close> on doubles return the double nearest to the real result.
  The ledger functions below take this rounding as their first argument \<open>fl\<close> and apply
  it to the result of every multiplication, addition, subtraction and division of the
  source; comparisons (\<^verbatim>\<open><\<close>, \<^verbatim>\<open><=\<close>, \<^verbatim>\<open>===\<close>) are exact on doubles and are not rounded. Sums
  and differences of quantities are sums and differences of integers, which doubles hold
  exactly below \<open>2 ^ 53\<close>.

  \<open>round_double\<close> is the rounding of JavaScript: binary64, to nearest, ties to the even
  significand, with gradual underflow (below \<open>2 powi - 1022\<close> the spacing stays
  \<open>2 powi - 1074\<close>). A result beyond the largest double is \<open>Infinity\<close> in JavaScript,
  which a real cannot denote: the model is the source as long as no result overflows.
  \<open>exact\<close> is no rounding at all, the arithmetic of the specification.
\<close>

definition exact :: "real \<Rightarrow> real" where
  "exact x = x"

definition round_even :: "real \<Rightarrow> int" where
  "round_even x =
     (let n = \<lfloor>x\<rfloor> in
      if x - of_int n < 1 / 2 then n
      else if 1 / 2 < x - of_int n then n + 1
      else if even n then n else n + 1)"

definition ulp_exponent :: "real \<Rightarrow> int" where
  "ulp_exponent x = max \<lfloor>log 2 \<bar>x\<bar>\<rfloor> (- 1022) - 52"

definition round_double :: "real \<Rightarrow> real" where
  "round_double x =
     (if x = 0 then 0
      else of_int (round_even (x / 2 powi ulp_exponent x)) * 2 powi ulp_exponent x)"

record holding =
  quantity :: int
  avgPrice :: real

record order =
  order_symbol :: string
  order_type :: string
  order_price :: real
  order_quantity :: int
  order_status :: string
  order_timestamp :: int

record portfolio =
  baseCapital :: real
  availableFunds :: real
  holdings :: "string \<rightharpoonup> holding"
  orders :: "order list"

definition initial_portfolio :: portfolio where
  "initial_portfolio =
     \<lparr>baseCapital = 100000, availableFunds = 100000, holdings = Map.empty, orders = []\<rparr>"

text \<open>
  The three alerts on which \<open>handleTradeExecution\<close> returns early, under the names the
  specification gives them, and the fourth that ends a completed execution:
  \<^item> \<open>InvalidOrder\<close>: \<^verbatim>\<open>alert("Invalid order details.")\<close>
  \<^item> \<open>InsufficientFunds\<close>: \<^verbatim>\<open>alert("Insufficient funds.")\<close>
  \<^item> \<open>InsufficientHoldings\<close>: \<^verbatim>\<open>alert("You do not own enough shares to sell.")\<close>
  \<^item> \<open>Executed\<close>: \<^verbatim>\<open>alert(`${type} order for ... executed!`)\<close>
\<close>

datatype outcome = InvalidOrder | InsufficientFunds | InsufficientHoldings | Executed

subsection \<open>What the handler reads\<close>

text \<open>
  \<open>parseInt(string)\<close> without a radix: leading white space is skipped, a sign is read, a
  prefix \<open>0x\<close> or \<open>0X\<close> selects radix 16, and the longest run of digits of the radix is
  the value; with no digit the result is NaN. Whatever follows the digits is ignored. The
  text of the field is taken to be ASCII, so the white space is the six ASCII characters
  among those that \<open>parseInt\<close> skips.
\<close>

definition js_whitespace :: "char \<Rightarrow> bool" where
  "js_whitespace c \<longleftrightarrow> c \<in> set [CHR '' '', CHR 0x09, CHR 0x0A, CHR 0x0B, CHR 0x0C, CHR 0x0D]"

definition digit_value :: "char \<Rightarrow> nat option" where
  "digit_value c =
     (let n = of_char c :: nat in
      if 48 \<le> n \<and> n \<le> 57 then Some (n - 48)
      else if 97 \<le> n \<and> n \<le> 122 then Some (n - 87)
      else if 65 \<le> n \<and> n \<le> 90 then Some (n - 55)
      else None)"

definition is_digit_of :: "nat \<Rightarrow> char \<Rightarrow> bool" where
  "is_digit_of radix c = (case digit_value c of Some d \<Rightarrow> d < radix | None \<Rightarrow> False)"

definition digits_value :: "nat \<Rightarrow> string \<Rightarrow> nat" where
  "digits_value radix ds = foldl (\<lambda>acc c. acc * radix + (case digit_value c of Some d \<Rightarrow> d | None \<Rightarrow> 0)) 0 ds"

definition parseInt_js :: "string \<Rightarrow> int option" where
  "parseInt_js inputString =
     (let s0 = dropWhile js_whitespace inputString;
          sign = (if s0 \<noteq> [] \<and> hd s0 = CHR ''-'' then - 1 else (1::int));
          s1 = (if s0 \<noteq> [] \<and> (hd s0 = CHR ''+'' \<or> hd s0 = CHR ''-'') then tl s0 else s0);
          hex = (length s1 \<ge> 2 \<and> (take 2 s1 = ''0x'' \<or> take 2 s1 = ''0X''));
          radix = (if hex then 16 else 10);
          s2 = (if hex then drop 2 s1 else s1);
          z = takeWhile (is_digit_of radix) s2
      in if z = [] then None else Some (sign * int (digits_value radix z)))"

text \<open>
  Truthiness, as the guard \<^verbatim>\<open>!symbol || !quantity || !price\<close> uses it: \<open>null\<close> and the
  empty string are falsy, and so are NaN and zero.
\<close>

definition falsy_string :: "string option \<Rightarrow> bool" where
  "falsy_string v = (case v of None \<Rightarrow> True | Some str \<Rightarrow> str = [])"

definition falsy_number :: "'a::zero option \<Rightarrow> bool" where
  "falsy_number v = (case v of None \<Rightarrow> True | Some x \<Rightarrow> x = 0)"

text \<open>A comparison with NaN is false.\<close>

definition js_le :: "int option \<Rightarrow> int \<Rightarrow> bool" where
  "js_le v k = (case v of None \<Rightarrow> False | Some x \<Rightarrow> x \<le> k)"

subsection \<open>handleTradeExecution\<close>

text \<open>
  The handler reads \<open>symbol\<close> and \<open>type\<close> from \<open>state.ui.activeTrade\<close> (the symbol is
  \<open>null\<close> until a trade dialog was opened), \<open>quantity\<close> as the result of \<open>parseInt\<close> and
  \<open>price\<close> as the result of \<open>parseFloat\<close> on the two form fields (an integer and a
  double, or \<open>None\<close> for NaN), and the clock (\<open>Date.now()\<close>) for the time stamp. They are
  the arguments of the model after the rounding \<open>fl\<close>; the model returns the alert shown
  and the ledger as the handler leaves it. Every branch other than \<^verbatim>\<open>type === 'BUY'\<close> is the SELL branch, as in
  the source. What follows the push of the order (closing the dialog, rendering) reads the
  ledger and does not write it.
\<close>

definition buy ::
  "(real \<Rightarrow> real) \<Rightarrow> string \<Rightarrow> int \<Rightarrow> real \<Rightarrow> portfolio \<Rightarrow> outcome \<times> portfolio" where
  "buy fl symb q p s =
     (let cost = fl (p * of_int q) in
      if availableFunds s < cost then (InsufficientFunds, s)
      else
        let s1 = s\<lparr>availableFunds := fl (availableFunds s - cost)\<rparr> in
        (case holdings s1 symb of
           Some h \<Rightarrow>
             let h1 = h\<lparr>avgPrice :=
                        fl (fl (fl (avgPrice h * of_int (quantity h)) + cost) / of_int (quantity h + q))\<rparr>;
                 h2 = h1\<lparr>quantity := quantity h1 + q\<rparr>
             in (Executed, s1\<lparr>holdings := (holdings s1)(symb \<mapsto> h2)\<rparr>)
         | None \<Rightarrow>
             (Executed, s1\<lparr>holdings := (holdings s1)(symb \<mapsto> \<lparr>quantity = q, avgPrice = p\<rparr>)\<rparr>)))"

definition sell ::
  "(real \<Rightarrow> real) \<Rightarrow> string \<Rightarrow> int \<Rightarrow> real \<Rightarrow> portfolio \<Rightarrow> outcome \<times> portfolio" where
  "sell fl symb q p s =
     (case holdings s symb of
        None \<Rightarrow> (InsufficientHoldings, s)
      | Some h \<Rightarrow>
          if quantity h < q then (InsufficientHoldings, s)
          else
            let s1 = s\<lparr>availableFunds := fl (availableFunds s + fl (p * of_int q))\<rparr>;
                h1 = h\<lparr>quantity := quantity h - q\<rparr>
            in if quantity h1 = 0 then (Executed, s1\<lparr>holdings := (holdings s1)(symb := None)\<rparr>)
               else (Executed, s1\<lparr>holdings := (holdings s1)(symb \<mapsto> h1)\<rparr>))"

definition push_order :: "string \<Rightarrow> string \<Rightarrow> real \<Rightarrow> int \<Rightarrow> int \<Rightarrow> portfolio \<Rightarrow> portfolio" where
  "push_order symb type p q now s =
     s\<lparr>orders := orders s @
        [\<lparr>order_symbol = symb, order_type = type, order_price = p, order_quantity = q,
          order_status = ''Executed'', order_timestamp = now\<rparr>]\<rparr>"

definition handleTradeExecution ::
  "(real \<Rightarrow> real) \<Rightarrow> string option \<Rightarrow> string \<Rightarrow> int option \<Rightarrow> real option \<Rightarrow> int \<Rightarrow> portfolio
     \<Rightarrow> outcome \<times> portfolio" where
  "handleTradeExecution fl symbol type qty price now s =
     (if falsy_string symbol \<or> falsy_number qty \<or> falsy_number price \<or> js_le qty 0
      then (InvalidOrder, s)
      else
        (case (symbol, qty, price) of
           (Some symb, Some q, Some p) \<Rightarrow>
             (case (if type = ''BUY'' then buy fl symb q p s else sell fl symb q p s) of
                (Executed, s') \<Rightarrow> (Executed, push_order symb type p q now s')
              | r \<Rightarrow> r)
         | _ \<Rightarrow> (InvalidOrder, s)))"

text \<open>
  A holding's quantity is positive in every ledger the handler can produce
  (\<open>holdings_positive\<close> below), so that the divisor \<open>h.quantity + quantity\<close> of the average
  is positive there; the model's \<open>x / 0 = 0\<close> is never what a theorem below relies on.
\<close>

definition holdings_positive :: "portfolio \<Rightarrow> bool" where
  "holdings_positive s \<longleftrightarrow> (\<forall>symb h. holdings s symb = Some h \<longrightarrow> 0 < quantity h)"

subsection \<open>Successive submissions of the trade form\<close>

text \<open>
  One submission of the form is one call of the handler; \<open>trade_event\<close> is what that call
  reads. The calls of a session run one after the other on the same ledger, whatever each
  of them alerts.
\<close>

record trade_event =
  ev_symbol :: "string option"
  ev_type :: string
  ev_quantity :: "int option"
  ev_price :: "real option"
  ev_now :: int

definition submit :: "(real \<Rightarrow> real) \<Rightarrow> trade_event \<Rightarrow> portfolio \<Rightarrow> outcome \<times> portfolio" where
  "submit fl e s =
     handleTradeExecution fl (ev_symbol e) (ev_type e) (ev_quantity e) (ev_price e) (ev_now e) s"

fun submit_all :: "(real \<Rightarrow> real) \<Rightarrow> trade_event list \<Rightarrow> portfolio \<Rightarrow> portfolio" where
  "submit_all fl [] s = s"
| "submit_all fl (e # es) s = submit_all fl es (snd (submit fl e s))"

text \<open>The submissions of a session that ended in an execution, in their order.\<close>

fun executed :: "(real \<Rightarrow> real) \<Rightarrow> trade_event list \<Rightarrow> portfolio \<Rightarrow> trade_event list" where
  "executed fl [] s = []"
| "executed fl (e # es) s =
     (if fst (submit fl e s) = Executed then e # executed fl es (snd (submit fl e s))
      else executed fl es (snd (submit fl e s)))"

text \<open>The amount \<open>price * quantity\<close> of a submission, and the order record it leaves.\<close>

definition amount :: "trade_event \<Rightarrow> real" where
  "amount e = (case (ev_price e, ev_quantity e) of (Some p, Some q) \<Rightarrow> p * of_int q | _ \<Rightarrow> 0)"

definition buys_total :: "trade_event list \<Rightarrow> real" where
  "buys_total es = sum_list (map amount (filter (\<lambda>e. ev_type e = ''BUY'') es))"

definition sells_total :: "trade_event list \<Rightarrow> real" where
  "sells_total es = sum_list (map amount (filter (\<lambda>e. ev_type e \<noteq> ''BUY'') es))"

definition order_of :: "trade_event \<Rightarrow> order" where
  "order_of e =
     \<lparr>order_symbol = (case ev_symbol e of Some symb \<Rightarrow> symb | None \<Rightarrow> []),
      order_type = ev_type e,
      order_price = (case ev_price e of Some p \<Rightarrow> p | None \<Rightarrow> 0),
      order_quantity = (case ev_quantity e of Some q \<Rightarrow> q | None \<Rightarrow> 0),
      order_status = ''Executed'', order_timestamp = ev_now e\<rparr>"

text \<open>
  The funds \<open>f\<close> after the amounts of a list of orders were debited and credited one after
  the other, each product and each new balance rounded; and the condition that none of
  these roundings changes anything, so that the amounts and the balances are all numbers
  of the arithmetic.
\<close>

fun settle :: "(real \<Rightarrow> real) \<Rightarrow> real \<Rightarrow> trade_event list \<Rightarrow> real" where
  "settle fl f [] = f"
| "settle fl f (e # es) =
     settle fl (if ev_type e = ''BUY'' then fl (f - fl (amount e)) else fl (f + fl (amount e))) es"

fun unrounded :: "(real \<Rightarrow> real) \<Rightarrow> real \<Rightarrow> trade_event list \<Rightarrow> bool" where
  "unrounded fl f [] = True"
| "unrounded fl f (e # es) =
     (fl (amount e) = amount e \<and>
      (if ev_type e = ''BUY''
       then fl (f - amount e) = f - amount e \<and> unrounded fl (f - amount e) es
       else fl (f + amount e) = f + amount e \<and> unrounded fl (f + amount e) es))"

section \<open>aggregateData of script.js\<close>

text \<open>
  A bar of \<open>minuteData\<close> is \<^verbatim>\<open>{ t, o, h, l, c, v }\<close>; \<open>t\<close> is a time in milliseconds
  (an integer, from \<open>getTime()\<close>). For an integer interval above 1 the divisor
  \<open>intervalMillis\<close> is positive, and \<^verbatim>\<open>Math.floor(d.t / intervalMillis)\<close> is the integer
  quotient rounded down, which is \<open>div\<close>. An interval that is NaN is not in the model.
\<close>

record bar =
  bar_t :: int
  bar_o :: real
  bar_h :: real
  bar_l :: real
  bar_c :: real
  bar_v :: real

definition candle_start :: "int \<Rightarrow> bar \<Rightarrow> int" where
  "candle_start intervalMillis d = (bar_t d div intervalMillis) * intervalMillis"

text \<open>
  The bar pushed for a group, which the source builds only under
  \<^verbatim>\<open>group.length > 0\<close>: here the group is \<open>g # gs\<close>.
\<close>

definition candle_of :: "bar \<Rightarrow> bar list \<Rightarrow> bar" where
  "candle_of g gs =
     \<lparr>bar_t = bar_t g,
      bar_o = bar_o g,
      bar_h = fold max (map bar_h gs) (bar_h g),
      bar_l = fold min (map bar_l gs) (bar_l g),
      bar_c = bar_c (last (g # gs)),
      bar_v = foldl (\<lambda>sum d. sum + bar_v d) 0 (g # gs)\<rparr>"

function aggregate_loop :: "bar list \<Rightarrow> int \<Rightarrow> nat \<Rightarrow> bar list \<Rightarrow> bar list" where
  "aggregate_loop data interval i aggregated =
     (if i < length data then
        (let intervalMillis = interval * 60000;
             candleTime = candle_start intervalMillis (data ! i);
             group = filter (\<lambda>d. candle_start intervalMillis d = candleTime) data
         in case group of
              g # gs \<Rightarrow> aggregate_loop data interval (i + length group) (aggregated @ [candle_of g gs])
            | [] \<Rightarrow> aggregate_loop data interval (i + 1) aggregated)
      else aggregated)"
  by pat_completeness auto
termination
proof (relation "measure (\<lambda>(data, interval, i, aggregated). length data - i)", goal_cases)
  case 1
  show ?case by simp
next
  case 2
  then show ?case by simp
next
  case (3 data interval i aggregated intervalMillis candleTime group g gs)
  from \<open>group = g # gs\<close> have "length group = Suc (length gs)"
    by (rule ssubst) simp
  with \<open>i < length data\<close> show ?case
    by simp
qed

definition aggregateData :: "bar list \<Rightarrow> int \<Rightarrow> bar list" where
  "aggregateData data interval = (if interval \<le> 1 then data else aggregate_loop data interval 0 [])"

text \<open>
  The partition of a list into its maximal runs of equal key; on bars in the order of their
  time, keyed by the candle start, these are the groups that the loop is meant to form.
\<close>

function runs :: "('a \<Rightarrow> int) \<Rightarrow> 'a list \<Rightarrow> 'a list list" where
  "runs key [] = []"
| "runs key (x # xs) =
     (x # takeWhile (\<lambda>y. key y = key x) xs) # runs key (dropWhile (\<lambda>y. key y = key x) xs)"
  by pat_completeness auto
termination
  by (relation "measure (\<lambda>(key, xs). length xs)") (auto simp: length_dropWhile_le le_imp_less_Suc)

section \<open>The simulated datafeed of data.js\<close>

text \<open>
  \<open>subscribeBars\<close> logs and sets an interval timer whose handler builds a bar from the clock
  and the random generator and passes it to \<open>onRealtimeCallback\<close>; the identifier that
  \<open>setInterval\<close> returns is dropped. \<open>unsubscribeBars\<close> logs, and does nothing else. The
  state of the model is what these two and the timers can change: the timers that are set,
  each under the \<open>subscriberUID\<close> of the call that set it, the calls of
  \<open>onRealtimeCallback\<close> made so far (for which subscription, with which bar), and the
  console. A step is a call of one of the two methods or the firing of a timer that is
  set; the bar a firing builds is given with the step, and the period of 2 seconds is not
  modelled.
\<close>

record feed_bar =
  fb_time :: int
  fb_open :: real
  fb_high :: real
  fb_low :: real
  fb_close :: real
  fb_volume :: real

record feed_state =
  timers :: "string list"
  emitted :: "(string \<times> feed_bar) list"
  console :: "(string \<times> string) list"

datatype feed_action = SubscribeBars string | UnsubscribeBars string | TimerFires nat feed_bar

definition feed_start :: feed_state where
  "feed_start = \<lparr>timers = [], emitted = [], console = []\<rparr>"

definition subscribeBars :: "string \<Rightarrow> feed_state \<Rightarrow> feed_state" where
  "subscribeBars subscriberUID s =
     (let s1 = s\<lparr>console := console s @ [(''[subscribeBars]: Method call with subscriberUID:'', subscriberUID)]\<rparr>
      in s1\<lparr>timers := timers s1 @ [subscriberUID]\<rparr>)"

definition unsubscribeBars :: "string \<Rightarrow> feed_state \<Rightarrow> feed_state" where
  "unsubscribeBars subscriberUID s =
     s\<lparr>console := console s @ [(''[unsubscribeBars]: Method call with subscriberUID:'', subscriberUID)]\<rparr>"

definition timer_fires :: "nat \<Rightarrow> feed_bar \<Rightarrow> feed_state \<Rightarrow> feed_state" where
  "timer_fires k lastBar s =
     (if k < length (timers s) then s\<lparr>emitted := emitted s @ [(timers s ! k, lastBar)]\<rparr> else s)"

fun feed_step :: "feed_action \<Rightarrow> feed_state \<Rightarrow> feed_state" where
  "feed_step (SubscribeBars uid) s = subscribeBars uid s"
| "feed_step (UnsubscribeBars uid) s = unsubscribeBars uid s"
| "feed_step (TimerFires k lastBar) s = timer_fires k lastBar s"

fun feed_run :: "feed_action list \<Rightarrow> feed_state \<Rightarrow> feed_state" where
  "feed_run [] s = s"
| "feed_run (a # as) s = feed_run as (feed_step a s)"

text \<open>The bars passed to the callback of one subscription, in order.\<close>

definition emitted_for :: "string \<Rightarrow> feed_state \<Rightarrow> feed_bar list" where
  "emitted_for uid s = map snd (filter (\<lambda>e. fst e = uid) (emitted s))"

section \<open>Properties of the arithmetic\<close>

lemma exact_id [simp]: "exact x = x"
  by (simp add: exact_def)

lemma floor_log2:
  assumes "2 powi e \<le> \<bar>x\<bar>" and "\<bar>x\<bar> < 2 powi (e + 1)"
  shows "\<lfloor>log 2 \<bar>x\<bar>\<rfloor> = e"
proof -
  have pos: "0 < \<bar>x\<bar>"
    using assms(1) by (smt (verit) zero_less_power_int)
  have pw: "2 powr real_of_int k = (2::real) powi k" for k
    by (simp add: powr_real_of_int')
  have "2 powr real_of_int e \<le> \<bar>x\<bar>"
    using assms(1) by (simp only: pw)
  moreover have "\<bar>x\<bar> < 2 powr real_of_int (e + 1)"
    using assms(2) by (simp only: pw)
  then have "\<bar>x\<bar> < 2 powr (real_of_int e + 1)"
    by simp
  ultimately have "2 powr real_of_int e \<le> \<bar>x\<bar>" and "\<bar>x\<bar> < 2 powr (real_of_int e + 1)"
    by simp_all
  with pos show ?thesis
    by (simp add: floor_log_eq_powr_iff)
qed

lemma round_double_eval:
  assumes "2 powi e \<le> \<bar>x\<bar>" and "\<bar>x\<bar> < 2 powi (e + 1)" and "- 1022 \<le> e"
  shows "round_double x = of_int (round_even (x / 2 powi (e - 52))) * 2 powi (e - 52)"
proof -
  from assms(1) have "x \<noteq> 0"
    by (smt (verit) zero_less_power_int abs_zero)
  moreover from floor_log2 [OF assms(1,2)] assms(3) have "ulp_exponent x = e - 52"
    by (simp add: ulp_exponent_def)
  ultimately show ?thesis
    by (simp add: round_double_def)
qed

lemma round_even_int: "round_even (of_int n) = n"
  by (simp add: round_even_def)

lemma round_even_error: "\<bar>of_int (round_even y) - y\<bar> \<le> 1 / 2"
  unfolding round_even_def Let_def by (auto; linarith)


lemma floor_log2_bounds:
  assumes "x \<noteq> 0"
  shows "2 powi \<lfloor>log 2 \<bar>x\<bar>\<rfloor> \<le> \<bar>x\<bar>" and "\<bar>x\<bar> < 2 powi (\<lfloor>log 2 \<bar>x\<bar>\<rfloor> + 1)"
proof -
  have pw: "2 powr real_of_int k = (2::real) powi k" for k
    by (simp add: powr_real_of_int')
  from assms have pos: "0 < \<bar>x\<bar>" by simp
  from floor_log_eq_powr_iff [of "\<bar>x\<bar>" 2 "\<lfloor>log 2 \<bar>x\<bar>\<rfloor>"] pos
  have "2 powr real_of_int \<lfloor>log 2 \<bar>x\<bar>\<rfloor> \<le> \<bar>x\<bar>"
    and "\<bar>x\<bar> < 2 powr (real_of_int \<lfloor>log 2 \<bar>x\<bar>\<rfloor> + 1)"
    by simp_all
  then show "2 powi \<lfloor>log 2 \<bar>x\<bar>\<rfloor> \<le> \<bar>x\<bar>"
    by (simp only: pw)
  have "real_of_int \<lfloor>log 2 \<bar>x\<bar>\<rfloor> + 1 = real_of_int (\<lfloor>log 2 \<bar>x\<bar>\<rfloor> + 1)"
    by simp
  with \<open>\<bar>x\<bar> < 2 powr (real_of_int \<lfloor>log 2 \<bar>x\<bar>\<rfloor> + 1)\<close>
  have "\<bar>x\<bar> < 2 powr real_of_int (\<lfloor>log 2 \<bar>x\<bar>\<rfloor> + 1)"
    by (simp only:)
  then show "\<bar>x\<bar> < 2 powi (\<lfloor>log 2 \<bar>x\<bar>\<rfloor> + 1)"
    by (simp only: pw)
qed

lemma round_double_error:
  "\<bar>round_double x - x\<bar> \<le> max (\<bar>x\<bar> / 2 ^ 53) (1 / 2 ^ 1075)"
proof (cases "x = 0")
  case True
  then show ?thesis by (simp add: round_double_def)
next
  case False
  define e where "e = \<lfloor>log 2 \<bar>x\<bar>\<rfloor>"
  define u where "u = (2::real) powi ulp_exponent x"
  have upos: "0 < u" by (simp add: u_def)
  have "round_double x - x = (of_int (round_even (x / u)) - x / u) * u"
    using False upos by (simp add: round_double_def u_def algebra_simps)
  then have "\<bar>round_double x - x\<bar> = \<bar>of_int (round_even (x / u)) - x / u\<bar> * u"
    using upos by (simp add: abs_mult)
  also have "\<dots> \<le> 1 / 2 * u"
    using round_even_error [of "x / u"] upos by (intro mult_right_mono) simp_all
  finally have err: "\<bar>round_double x - x\<bar> \<le> u / 2" by simp
  show ?thesis
  proof (cases "- 1022 \<le> e")
    case True
    then have "ulp_exponent x = e - 52"
      by (simp add: ulp_exponent_def e_def)
    then have "u = 2 powi e / 2 ^ 52"
      by (simp add: u_def power_int_diff)
    moreover from floor_log2_bounds(1) [OF False] have "2 powi e \<le> \<bar>x\<bar>"
      by (simp add: e_def)
    ultimately have "u / 2 \<le> \<bar>x\<bar> / 2 ^ 53"
      by (simp add: field_simps)
    with err have "\<bar>round_double x - x\<bar> \<le> \<bar>x\<bar> / 2 ^ 53"
      by (rule order_trans)
    then show ?thesis
      by (rule max.coboundedI1)
  next
    case False
    then have "ulp_exponent x = - 1074"
      by (simp add: ulp_exponent_def e_def)
    then have "u = 1 / 2 ^ 1074"
      by (simp only: u_def power_int_minus_divide power_int_numeral)
    then have "u / 2 = 1 / 2 ^ Suc 1074"
      by (simp only: power_Suc divide_divide_eq_left mult.commute)
    moreover have "Suc 1074 = 1075"
      by simp
    ultimately have "u / 2 = 1 / 2 ^ 1075"
      by (simp only:)
    with err have "\<bar>round_double x - x\<bar> \<le> 1 / 2 ^ 1075"
      by (simp only:)
    then show ?thesis
      by (rule max.coboundedI2)
  qed
qed

lemma round_double_int:
  assumes "x \<in> \<int>" and "\<bar>x\<bar> < 2 ^ 53"
  shows "round_double x = x"
proof (cases "x = 0")
  case True
  then show ?thesis by (simp add: round_double_def)
next
  case False
  from assms(1) obtain n where n: "x = of_int n"
    by (auto elim: Ints_cases)
  with False have "1 \<le> \<bar>x\<bar>" by simp
  define e where "e = \<lfloor>log 2 \<bar>x\<bar>\<rfloor>"
  have "0 \<le> e"
    using \<open>1 \<le> \<bar>x\<bar>\<close> by (simp add: e_def)
  have "2 powi e \<le> \<bar>x\<bar>"
    using floor_log2_bounds(1) [OF False] by (simp add: e_def)
  with assms(2) have "(2::real) powi e < 2 powi 53"
    by simp
  then have "e < 53"
    by (rule power_int_le_imp_less_exp [rotated]) simp_all
  with \<open>0 \<le> e\<close> have ue: "ulp_exponent x = e - 52"
    by (simp add: ulp_exponent_def e_def)
  define k where "k = nat (52 - e)"
  have u: "(2::real) powi (e - 52) = 1 / 2 ^ k"
    using \<open>e < 53\<close> by (simp add: k_def power_int_def power_divide)
  have "x / 2 powi (e - 52) = of_int (n * 2 ^ k)"
    by (simp add: u n)
  then have "round_even (x / 2 powi (e - 52)) = n * 2 ^ k"
    by (simp only: round_even_int)
  with False ue u n show ?thesis
    by (simp add: round_double_def)
qed

lemma round_double_samples:
  "round_double 2200 = 2200 \<and> round_double (- 5) = - 5 \<and> round_double 0 = 0
   \<and> round_double (1 / 2) = 1 / 2"
  using round_double_eval [of "- 1" "1 / 2"]
  by (simp add: round_double_int round_even_def power_int_minus_divide)

section \<open>Properties of the ledger\<close>

subsection \<open>The handler, branch by branch\<close>

lemma hte_invalid:
  "falsy_string symbol \<or> falsy_number qty \<or> falsy_number price \<or> js_le qty 0
   \<Longrightarrow> handleTradeExecution fl symbol type qty price now s = (InvalidOrder, s)"
  by (simp add: handleTradeExecution_def)

lemma hte_valid:
  "symb \<noteq> [] \<Longrightarrow> 0 < q \<Longrightarrow> p \<noteq> 0 \<Longrightarrow>
   handleTradeExecution fl (Some symb) type (Some q) (Some p) now s =
     (case (if type = ''BUY'' then buy fl symb q p s else sell fl symb q p s) of
        (Executed, s') \<Rightarrow> (Executed, push_order symb type p q now s')
      | r \<Rightarrow> r)"
  by (simp add: handleTradeExecution_def falsy_string_def falsy_number_def js_le_def)

lemma hte_Executed_valid:
  "fst (handleTradeExecution fl symbol type qty price now s) = Executed \<Longrightarrow>
   \<exists>symb q p. symbol = Some symb \<and> qty = Some q \<and> price = Some p \<and> symb \<noteq> [] \<and> 0 < q \<and> p \<noteq> 0"
  by (auto simp: handleTradeExecution_def falsy_string_def falsy_number_def js_le_def
           split: option.splits if_splits)

lemma buy_outcome:
  "fst (buy fl symb q p s) =
     (if availableFunds s < fl (p * of_int q) then InsufficientFunds else Executed)"
  by (simp add: buy_def Let_def split: option.splits)

lemma sell_outcome:
  "fst (sell fl symb q p s) =
     (case holdings s symb of None \<Rightarrow> InsufficientHoldings
      | Some h \<Rightarrow> if quantity h < q then InsufficientHoldings else Executed)"
  by (simp add: sell_def Let_def split: option.splits)

lemma buy_rejected: "fst (buy fl symb q p s) \<noteq> Executed \<Longrightarrow> snd (buy fl symb q p s) = s"
  by (simp add: buy_def Let_def split: option.splits if_splits)

lemma sell_rejected: "fst (sell fl symb q p s) \<noteq> Executed \<Longrightarrow> snd (sell fl symb q p s) = s"
  by (auto simp: sell_def Let_def split: option.splits if_splits)

lemma buy_funds:
  "fst (buy fl symb q p s) = Executed \<Longrightarrow>
   availableFunds (snd (buy fl symb q p s)) = fl (availableFunds s - fl (p * of_int q))"
  by (simp add: buy_def Let_def split: option.splits if_splits)

lemma sell_funds:
  "fst (sell fl symb q p s) = Executed \<Longrightarrow>
   availableFunds (snd (sell fl symb q p s)) = fl (availableFunds s + fl (p * of_int q))"
  by (simp add: sell_def Let_def split: option.splits if_splits)

lemma buy_orders: "orders (snd (buy fl symb q p s)) = orders s"
  by (simp add: buy_def Let_def split: option.splits if_splits)

lemma sell_orders: "orders (snd (sell fl symb q p s)) = orders s"
  by (simp add: sell_def Let_def split: option.splits if_splits)

lemma hte_valid_fst:
  "symb \<noteq> [] \<Longrightarrow> 0 < q \<Longrightarrow> p \<noteq> 0 \<Longrightarrow>
   fst (handleTradeExecution fl (Some symb) type (Some q) (Some p) now s) =
     (if type = ''BUY'' then fst (buy fl symb q p s) else fst (sell fl symb q p s))"
  by (simp add: hte_valid split: prod.splits outcome.splits)

lemma hte_valid_snd:
  "symb \<noteq> [] \<Longrightarrow> 0 < q \<Longrightarrow> p \<noteq> 0 \<Longrightarrow>
   snd (handleTradeExecution fl (Some symb) type (Some q) (Some p) now s) =
     (let r = (if type = ''BUY'' then buy fl symb q p s else sell fl symb q p s)
      in if fst r = Executed then push_order symb type p q now (snd r) else snd r)"
  by (simp add: hte_valid Let_def split: prod.splits outcome.splits)

lemma hte_rejected:
  "fst (handleTradeExecution fl symbol type qty price now s) \<noteq> Executed \<Longrightarrow>
   snd (handleTradeExecution fl symbol type qty price now s) = s"
proof (cases "falsy_string symbol \<or> falsy_number qty \<or> falsy_number price \<or> js_le qty 0")
  case True
  then show ?thesis by (simp add: hte_invalid)
next
  case False
  then obtain symb q p where v: "symbol = Some symb" "qty = Some q" "price = Some p"
      "symb \<noteq> []" "0 < q" "p \<noteq> 0"
    by (auto simp: falsy_string_def falsy_number_def js_le_def split: option.splits)
  assume "fst (handleTradeExecution fl symbol type qty price now s) \<noteq> Executed"
  with v show ?thesis
    by (auto simp: hte_valid_fst hte_valid_snd Let_def buy_rejected sell_rejected split: if_splits)
qed


subsection \<open>Rejections\<close>

text \<open>
  C2. Atomicity of rejection: whenever the handler ends in one of its three rejections
  (invalid order details, insufficient funds on a BUY, not enough shares on a SELL), the
  ledger it leaves is the ledger it found: the funds, every holding and the order history
  are unchanged. This does not depend on the rounding \<open>fl\<close>.
\<close>

theorem rejection_changes_nothing:
  "fst (handleTradeExecution fl symbol type qty price now s) \<noteq> Executed \<Longrightarrow>
   snd (handleTradeExecution fl symbol type qty price now s) = s"
  by (rule hte_rejected)

theorem rejection_changes_nothing_witness:
  "fst (handleTradeExecution exact (Some ''AAPL'') ''BUY'' (Some 1000) (Some 214.2) 7 initial_portfolio)
     = InsufficientFunds
   \<and> snd (handleTradeExecution exact (Some ''AAPL'') ''BUY'' (Some 1000) (Some 214.2) 7 initial_portfolio)
     = initial_portfolio"
proof -
  have r: "fst (handleTradeExecution exact (Some ''AAPL'') ''BUY'' (Some 1000) (Some 214.2) 7 initial_portfolio)
      = InsufficientFunds"
    by (simp add: hte_valid_fst buy_outcome initial_portfolio_def)
  then have "fst (handleTradeExecution exact (Some ''AAPL'') ''BUY'' (Some 1000) (Some 214.2) 7 initial_portfolio)
      \<noteq> Executed"
    by simp
  from rejection_changes_nothing [OF this] r show ?thesis
    by simp
qed

subsection \<open>Funds\<close>

lemma submit_rejected: "fst (submit fl e s) \<noteq> Executed \<Longrightarrow> snd (submit fl e s) = s"
  by (simp add: submit_def hte_rejected)

lemma submit_Executed_valid:
  "fst (submit fl e s) = Executed \<Longrightarrow>
   \<exists>symb q p. ev_symbol e = Some symb \<and> ev_quantity e = Some q \<and> ev_price e = Some p \<and>
     symb \<noteq> [] \<and> 0 < q \<and> p \<noteq> 0"
  unfolding submit_def by (rule hte_Executed_valid)

lemma push_order_funds: "availableFunds (push_order symb type p q now s) = availableFunds s"
  by (simp add: push_order_def)

lemma hte_funds:
  assumes "fst (handleTradeExecution fl symbol type (Some q) (Some p) now s) = Executed"
  shows "availableFunds (snd (handleTradeExecution fl symbol type (Some q) (Some p) now s)) =
         (if type = ''BUY'' then fl (availableFunds s - fl (p * of_int q))
          else fl (availableFunds s + fl (p * of_int q)))"
proof -
  from hte_Executed_valid [OF assms] obtain symb where v: "symbol = Some symb" "symb \<noteq> []" "0 < q" "p \<noteq> 0"
    by auto
  with assms show ?thesis
    by (auto simp: hte_valid_fst hte_valid_snd Let_def push_order_funds buy_funds sell_funds split: if_splits)
qed

lemma submit_funds:
  assumes "fst (submit fl e s) = Executed"
  shows "availableFunds (snd (submit fl e s)) =
         (if ev_type e = ''BUY'' then fl (availableFunds s - fl (amount e))
          else fl (availableFunds s + fl (amount e)))"
proof -
  from submit_Executed_valid [OF assms] obtain q p where v: "ev_quantity e = Some q" "ev_price e = Some p"
    by auto
  with assms hte_funds [of fl "ev_symbol e" "ev_type e" q p "ev_now e" s] show ?thesis
    by (simp add: submit_def amount_def)
qed

lemma submit_all_settle:
  "availableFunds (submit_all fl es s) = settle fl (availableFunds s) (executed fl es s)"
proof (induction es arbitrary: s)
  case Nil
  show ?case by simp
next
  case (Cons e es)
  show ?case
  proof (cases "fst (submit fl e s) = Executed")
    case True
    with Cons [of "snd (submit fl e s)"] submit_funds [OF True] show ?thesis
      by simp
  next
    case False
    with Cons [of "snd (submit fl e s)"] submit_rejected [OF False] show ?thesis
      by simp
  qed
qed

lemma settle_unrounded:
  "unrounded fl f es \<Longrightarrow> settle fl f es = f - buys_total es + sells_total es"
proof (induction es arbitrary: f)
  case Nil
  show ?case by (simp add: buys_total_def sells_total_def)
next
  case (Cons e es)
  show ?case
  proof (cases "ev_type e = ''BUY''")
    case True
    with Cons.prems Cons.IH [of "f - amount e"] show ?thesis
      by (simp add: buys_total_def sells_total_def)
  next
    case False
    with Cons.prems Cons.IH [of "f + amount e"] show ?thesis
      by (simp add: buys_total_def sells_total_def)
  qed
qed

lemma unrounded_exact: "unrounded exact f es"
  by (induction es arbitrary: f) (simp_all add: exact_def)

text \<open>
  C1, as the specification states it: the funds after a session are exactly the base
  capital minus the amounts of the executed BUYs plus those of the executed SELLs. The
  price 0.01 is read as the double \<open>5764607523034235 / 2 ^ 59\<close>. Two BUYs of one share at
  this price, from the initial ledger, are both executed and leave the funds
  \<open>6871946299210466 / 2 ^ 36\<close> (printed as 99999.98000000001), which is not 100000 minus
  the two amounts, whether the price is taken as the double or as the decimal 0.01.
\<close>

theorem funds_conservation_counterexample:
  "round_double (1 / 100) = 5764607523034235 / 2 ^ 59
   \<and> executed round_double
       [\<lparr>ev_symbol = Some ''AAPL'', ev_type = ''BUY'', ev_quantity = Some 1,
         ev_price = Some (5764607523034235 / 2 ^ 59), ev_now = 1\<rparr>,
        \<lparr>ev_symbol = Some ''AAPL'', ev_type = ''BUY'', ev_quantity = Some 1,
         ev_price = Some (5764607523034235 / 2 ^ 59), ev_now = 2\<rparr>]
       initial_portfolio =
       [\<lparr>ev_symbol = Some ''AAPL'', ev_type = ''BUY'', ev_quantity = Some 1,
         ev_price = Some (5764607523034235 / 2 ^ 59), ev_now = 1\<rparr>,
        \<lparr>ev_symbol = Some ''AAPL'', ev_type = ''BUY'', ev_quantity = Some 1,
         ev_price = Some (5764607523034235 / 2 ^ 59), ev_now = 2\<rparr>]
   \<and> availableFunds (submit_all round_double
       [\<lparr>ev_symbol = Some ''AAPL'', ev_type = ''BUY'', ev_quantity = Some 1,
         ev_price = Some (5764607523034235 / 2 ^ 59), ev_now = 1\<rparr>,
        \<lparr>ev_symbol = Some ''AAPL'', ev_type = ''BUY'', ev_quantity = Some 1,
         ev_price = Some (5764607523034235 / 2 ^ 59), ev_now = 2\<rparr>]
       initial_portfolio) = 6871946299210466 / 2 ^ 36
   \<and> availableFunds (submit_all round_double
       [\<lparr>ev_symbol = Some ''AAPL'', ev_type = ''BUY'', ev_quantity = Some 1,
         ev_price = Some (5764607523034235 / 2 ^ 59), ev_now = 1\<rparr>,
        \<lparr>ev_symbol = Some ''AAPL'', ev_type = ''BUY'', ev_quantity = Some 1,
         ev_price = Some (5764607523034235 / 2 ^ 59), ev_now = 2\<rparr>]
       initial_portfolio)
     \<noteq> baseCapital initial_portfolio
       - buys_total (executed round_double
           [\<lparr>ev_symbol = Some ''AAPL'', ev_type = ''BUY'', ev_quantity = Some 1,
             ev_price = Some (5764607523034235 / 2 ^ 59), ev_now = 1\<rparr>,
            \<lparr>ev_symbol = Some ''AAPL'', ev_type = ''BUY'', ev_quantity = Some 1,
             ev_price = Some (5764607523034235 / 2 ^ 59), ev_now = 2\<rparr>]
           initial_portfolio)
       + sells_total (executed round_double
           [\<lparr>ev_symbol = Some ''AAPL'', ev_type = ''BUY'', ev_quantity = Some 1,
             ev_price = Some (5764607523034235 / 2 ^ 59), ev_now = 1\<rparr>,
            \<lparr>ev_symbol = Some ''AAPL'', ev_type = ''BUY'', ev_quantity = Some 1,
             ev_price = Some (5764607523034235 / 2 ^ 59), ev_now = 2\<rparr>]
           initial_portfolio)
   \<and> (6871946299210466 / 2 ^ 36 :: real) \<noteq> 100000 - (1 / 100 + 1 / 100)"
proof -
  define d :: real where "d = 5764607523034235 / 2 ^ 59"
  define g1 :: real where "g1 = 6871946986405233 / 2 ^ 36"
  define g2 :: real where "g2 = 6871946299210466 / 2 ^ 36"
  define e1 where "e1 = \<lparr>ev_symbol = Some ''AAPL'', ev_type = ''BUY'', ev_quantity = Some 1,
         ev_price = Some d, ev_now = 1\<rparr>"
  define e2 where "e2 = \<lparr>ev_symbol = Some ''AAPL'', ev_type = ''BUY'', ev_quantity = Some 1,
         ev_price = Some d, ev_now = 2\<rparr>"
  define s1 where "s1 = snd (submit round_double e1 initial_portfolio)"
  have r: "round_double (1 / 100) = d"
    unfolding d_def using round_double_eval [of "- 7" "1 / 100"]
    by (simp add: round_even_def power_int_minus_divide)
  have c: "round_double d = d"
    unfolding d_def using round_double_eval [of "- 7" "5764607523034235 / 2 ^ 59"]
    by (simp add: round_even_def power_int_minus_divide)
  have f1: "round_double (100000 - d) = g1"
    unfolding d_def g1_def using round_double_eval [of 16 "100000 - 5764607523034235 / 2 ^ 59"]
    by (simp add: round_even_def power_int_minus_divide)
  have f2: "round_double (g1 - d) = g2"
    unfolding d_def g1_def g2_def
    using round_double_eval [of 16 "6871946986405233 / 2 ^ 36 - 5764607523034235 / 2 ^ 59"]
    by (simp add: round_even_def power_int_minus_divide)
  have small: "d \<noteq> 0" "\<not> 100000 < d" "\<not> g1 < d"
    by (simp_all add: d_def g1_def)
  have am: "amount e1 = d" "amount e2 = d"
    by (simp_all add: amount_def e1_def e2_def)
  have ty: "ev_type e1 = ''BUY''" "ev_type e2 = ''BUY''"
    by (simp_all add: e1_def e2_def)
  have x1: "fst (submit round_double e1 initial_portfolio) = Executed"
    using small c by (simp add: submit_def e1_def hte_valid_fst buy_outcome initial_portfolio_def)
  have "availableFunds s1 = round_double (availableFunds initial_portfolio - round_double (amount e1))"
    unfolding s1_def using submit_funds [OF x1] ty by simp
  then have a1: "availableFunds s1 = g1"
    by (simp add: am c f1 initial_portfolio_def)
  have x2: "fst (submit round_double e2 s1) = Executed"
    using small c a1 by (simp add: submit_def e2_def hte_valid_fst buy_outcome)
  have "availableFunds (snd (submit round_double e2 s1)) =
      round_double (availableFunds s1 - round_double (amount e2))"
    using submit_funds [OF x2] ty by simp
  then have a2: "availableFunds (snd (submit round_double e2 s1)) = g2"
    by (simp add: am c f2 a1)
  have ex: "executed round_double [e1, e2] initial_portfolio = [e1, e2]"
    using x1 x2 by (simp add: s1_def)
  have fin: "availableFunds (submit_all round_double [e1, e2] initial_portfolio) = g2"
    using a2 by (simp add: s1_def)
  have bt: "buys_total [e1, e2] = d + d" "sells_total [e1, e2] = 0"
    by (simp_all add: buys_total_def sells_total_def am ty)
  have bc: "baseCapital initial_portfolio = 100000"
    by (simp add: initial_portfolio_def)
  have g: "g2 \<noteq> 100000 - (d + d) + 0"
    by (simp add: d_def g2_def)
  have ne: "availableFunds (submit_all round_double [e1, e2] initial_portfolio)
     \<noteq> baseCapital initial_portfolio
       - buys_total (executed round_double [e1, e2] initial_portfolio)
       + sells_total (executed round_double [e1, e2] initial_portfolio)"
    unfolding fin ex bt bc by (rule g)
  have dec: "(6871946299210466 / 2 ^ 36 :: real) \<noteq> 100000 - (1 / 100 + 1 / 100)"
    by simp
  from r ex fin ne dec show ?thesis
    unfolding e1_def e2_def d_def g2_def by (intro conjI)
qed

text \<open>
  C1, amended: after any session of submissions from the initial ledger, the available
  funds are the base capital with the amount of each executed order debited (BUY) or
  credited (SELL) in the order of execution, where the amount price * quantity and each
  new balance are rounded to the nearest double; one executed BUY leaves the funds
  \<open>fl (funds - fl (price * quantity))\<close>, one executed SELL
  \<open>fl (funds + fl (price * quantity))\<close>, and nothing else changes them. Whenever none of these
  roundings changes a value (integer prices and funds below \<open>2 ^ 53\<close>, or arithmetic without
  rounding), the funds are exactly the base capital minus the amounts of the executed BUYs
  plus the amounts of the executed SELLs. A rounding to double moves a value \<open>x\<close> by at
  most \<open>\<bar>x\<bar> / 2 ^ 53\<close> (by at most \<open>1 / 2 ^ 1075\<close> in the subnormal range).
\<close>

theorem funds_conservation:
  "availableFunds (submit_all fl es initial_portfolio) =
     settle fl (baseCapital initial_portfolio) (executed fl es initial_portfolio)
   \<and> (unrounded fl (baseCapital initial_portfolio) (executed fl es initial_portfolio) \<longrightarrow>
        availableFunds (submit_all fl es initial_portfolio) =
          baseCapital initial_portfolio - buys_total (executed fl es initial_portfolio)
            + sells_total (executed fl es initial_portfolio))
   \<and> availableFunds (submit_all exact es initial_portfolio) =
        baseCapital initial_portfolio - buys_total (executed exact es initial_portfolio)
          + sells_total (executed exact es initial_portfolio)
   \<and> (fst (handleTradeExecution fl symbol type (Some q) (Some p) now s) = Executed \<longrightarrow>
        availableFunds (snd (handleTradeExecution fl symbol type (Some q) (Some p) now s)) =
          (if type = ''BUY'' then fl (availableFunds s - fl (p * of_int q))
           else fl (availableFunds s + fl (p * of_int q))))
   \<and> \<bar>round_double x - x\<bar> \<le> max (\<bar>x\<bar> / 2 ^ 53) (1 / 2 ^ 1075)"
proof -
  have b: "availableFunds initial_portfolio = baseCapital initial_portfolio"
    by (simp add: initial_portfolio_def)
  have 1: "availableFunds (submit_all fl es initial_portfolio) =
     settle fl (baseCapital initial_portfolio) (executed fl es initial_portfolio)" for fl
    using submit_all_settle [of fl es initial_portfolio] by (simp only: b)
  have 2: "unrounded fl (baseCapital initial_portfolio) (executed fl es initial_portfolio) \<Longrightarrow>
        availableFunds (submit_all fl es initial_portfolio) =
          baseCapital initial_portfolio - buys_total (executed fl es initial_portfolio)
            + sells_total (executed fl es initial_portfolio)" for fl
    using 1 [of fl] by (simp only: settle_unrounded)
  note 3 = 2 [OF unrounded_exact]
  from 1 [of fl] 2 [of fl] 3 hte_funds [of fl symbol type q p now s] round_double_error [of x]
  show ?thesis
    by blast
qed

theorem funds_conservation_witness:
  "executed round_double
     [\<lparr>ev_symbol = Some ''AAPL'', ev_type = ''BUY'', ev_quantity = Some 10, ev_price = Some 220, ev_now = 1\<rparr>,
      \<lparr>ev_symbol = Some ''AAPL'', ev_type = ''SELL'', ev_quantity = Some 20, ev_price = Some 225, ev_now = 2\<rparr>,
      \<lparr>ev_symbol = Some ''AAPL'', ev_type = ''SELL'', ev_quantity = Some 4, ev_price = Some 225, ev_now = 3\<rparr>]
     initial_portfolio =
     [\<lparr>ev_symbol = Some ''AAPL'', ev_type = ''BUY'', ev_quantity = Some 10, ev_price = Some 220, ev_now = 1\<rparr>,
      \<lparr>ev_symbol = Some ''AAPL'', ev_type = ''SELL'', ev_quantity = Some 4, ev_price = Some 225, ev_now = 3\<rparr>]
   \<and> unrounded round_double (baseCapital initial_portfolio)
     [\<lparr>ev_symbol = Some ''AAPL'', ev_type = ''BUY'', ev_quantity = Some 10, ev_price = Some 220, ev_now = 1\<rparr>,
      \<lparr>ev_symbol = Some ''AAPL'', ev_type = ''SELL'', ev_quantity = Some 4, ev_price = Some 225, ev_now = 3\<rparr>]
   \<and> availableFunds (submit_all round_double
       [\<lparr>ev_symbol = Some ''AAPL'', ev_type = ''BUY'', ev_quantity = Some 10, ev_price = Some 220, ev_now = 1\<rparr>,
        \<lparr>ev_symbol = Some ''AAPL'', ev_type = ''SELL'', ev_quantity = Some 20, ev_price = Some 225, ev_now = 2\<rparr>,
        \<lparr>ev_symbol = Some ''AAPL'', ev_type = ''SELL'', ev_quantity = Some 4, ev_price = Some 225, ev_now = 3\<rparr>]
       initial_portfolio) = 100000 - 2200 + 900
   \<and> fst (handleTradeExecution round_double (Some ''AAPL'') ''BUY'' (Some 10) (Some 220) 1 initial_portfolio)
       = Executed
   \<and> availableFunds (snd (handleTradeExecution round_double (Some ''AAPL'') ''BUY'' (Some 10) (Some 220) 1
       initial_portfolio)) = 100000 - 2200"
proof -
  let ?es = "[\<lparr>ev_symbol = Some ''AAPL'', ev_type = ''BUY'', ev_quantity = Some 10, ev_price = Some 220, ev_now = 1\<rparr>,
      \<lparr>ev_symbol = Some ''AAPL'', ev_type = ''SELL'', ev_quantity = Some 20, ev_price = Some 225, ev_now = 2\<rparr>,
      \<lparr>ev_symbol = Some ''AAPL'', ev_type = ''SELL'', ev_quantity = Some 4, ev_price = Some 225, ev_now = 3\<rparr>]"
  have ex: "executed round_double ?es initial_portfolio =
     [\<lparr>ev_symbol = Some ''AAPL'', ev_type = ''BUY'', ev_quantity = Some 10, ev_price = Some 220, ev_now = 1\<rparr>,
      \<lparr>ev_symbol = Some ''AAPL'', ev_type = ''SELL'', ev_quantity = Some 4, ev_price = Some 225, ev_now = 3\<rparr>]"
    by (simp add: submit_def hte_valid_fst hte_valid_snd buy_outcome sell_outcome
          initial_portfolio_def Let_def buy_def sell_def push_order_def round_double_int)
  have un: "unrounded round_double (baseCapital initial_portfolio)
     [\<lparr>ev_symbol = Some ''AAPL'', ev_type = ''BUY'', ev_quantity = Some 10, ev_price = Some 220, ev_now = 1\<rparr>,
      \<lparr>ev_symbol = Some ''AAPL'', ev_type = ''SELL'', ev_quantity = Some 4, ev_price = Some 225, ev_now = 3\<rparr>]"
    by (simp add: amount_def initial_portfolio_def round_double_int)
  have b: "fst (handleTradeExecution round_double (Some ''AAPL'') ''BUY'' (Some 10) (Some 220) 1 initial_portfolio)
      = Executed"
    by (simp add: hte_valid_fst buy_outcome initial_portfolio_def round_double_int)
  from funds_conservation [where fl = round_double and es = ?es and symbol = "Some ''AAPL''"
      and type = "''BUY''" and q = 10 and p = 220 and now = 1 and s = initial_portfolio] ex un b
  show ?thesis
    by (simp add: buys_total_def sells_total_def amount_def initial_portfolio_def round_double_int)
qed

subsection \<open>The guard on the order details\<close>

lemma parseInt_fraction: "parseInt_js ''2.5'' = Some 2"
  by (simp add: parseInt_js_def js_whitespace_def is_digit_of_def digit_value_def digits_value_def Let_def)

lemma parseInt_samples:
  "parseInt_js ''abc'' = None \<and> parseInt_js [] = None \<and> parseInt_js ''-3'' = Some (- 3)
   \<and> parseInt_js ''0'' = Some 0 \<and> parseInt_js '' 12px'' = Some 12"
  by (simp add: parseInt_js_def js_whitespace_def is_digit_of_def digit_value_def digits_value_def Let_def)

text \<open>
  C3, as the specification states it: an order whose quantity is not an integer, such as
  2.5, is rejected. It is not: the quantity field is read with \<open>parseInt\<close>, which stops
  at the decimal point, and the order is executed for 2 shares.
\<close>

theorem invalid_order_counterexample:
  "parseInt_js ''2.5'' = Some 2
   \<and> handleTradeExecution exact (Some ''AAPL'') ''BUY'' (parseInt_js ''2.5'') (Some 214.2) 1 initial_portfolio
     = (Executed,
        \<lparr>baseCapital = 100000, availableFunds = 100000 - 428.4,
         holdings = [''AAPL'' \<mapsto> \<lparr>quantity = 2, avgPrice = 214.2\<rparr>],
         orders = [\<lparr>order_symbol = ''AAPL'', order_type = ''BUY'', order_price = 214.2,
                    order_quantity = 2, order_status = ''Executed'', order_timestamp = 1\<rparr>]\<rparr>)"
  by (simp add: parseInt_fraction hte_valid buy_def push_order_def initial_portfolio_def Let_def)

text \<open>
  The guard \<^verbatim>\<open>!price\<close> is false for a negative price, and no other test looks at the sign
  of the price: a BUY at the price -5 is executed and raises the funds.
\<close>

lemma negative_price_executes:
  "handleTradeExecution exact (Some ''AAPL'') ''BUY'' (Some 1) (Some (- 5)) 1 initial_portfolio
     = (Executed,
        \<lparr>baseCapital = 100000, availableFunds = 100005,
         holdings = [''AAPL'' \<mapsto> \<lparr>quantity = 1, avgPrice = - 5\<rparr>],
         orders = [\<lparr>order_symbol = ''AAPL'', order_type = ''BUY'', order_price = - 5,
                    order_quantity = 1, order_status = ''Executed'', order_timestamp = 1\<rparr>]\<rparr>)"
  by (simp add: hte_valid buy_def push_order_def initial_portfolio_def Let_def)

text \<open>
  C3, amended: the handler rejects with \<open>InvalidOrder\<close>, and leaves the ledger as it is,
  every order whose symbol is unset or empty, whose quantity is NaN, zero or negative, or
  whose price is NaN or zero. The quantity is the integer that \<open>parseInt\<close> reads at the
  start of the quantity field, so the text 2.5 is the order for the quantity 2, and a BUY
  entered with it is executed when the funds cover two shares. None of this depends on
  the rounding \<open>fl\<close>.
\<close>

theorem invalid_order_rejected:
  "(falsy_string symbol \<or> qty = None \<or> (\<exists>q. qty = Some q \<and> q \<le> 0) \<or> price = None \<or> price = Some 0
      \<longrightarrow> handleTradeExecution fl symbol type qty price now s = (InvalidOrder, s))
   \<and> handleTradeExecution fl symbol type (parseInt_js ''2.5'') price now s
       = handleTradeExecution fl symbol type (Some 2) price now s
   \<and> (symb' \<noteq> [] \<and> p' \<noteq> 0 \<and> \<not> availableFunds s' < fl (p' * 2) \<longrightarrow>
        fst (handleTradeExecution fl (Some symb') ''BUY'' (parseInt_js ''2.5'') (Some p') now' s')
          = Executed)"
  by (auto simp: parseInt_fraction hte_invalid hte_valid_fst buy_outcome falsy_number_def js_le_def)

theorem invalid_order_rejected_witness:
  "parseInt_js ''-3'' = Some (- 3)
   \<and> (\<exists>q. parseInt_js ''-3'' = Some q \<and> q \<le> 0)
   \<and> handleTradeExecution exact (Some ''AAPL'') ''SELL'' (parseInt_js ''-3'') (Some 214.2) 1 initial_portfolio
       = (InvalidOrder, initial_portfolio)
   \<and> handleTradeExecution exact (Some ''AAPL'') ''SELL'' (parseInt_js ''abc'') (Some 214.2) 1 initial_portfolio
       = (InvalidOrder, initial_portfolio)
   \<and> handleTradeExecution exact (Some ''AAPL'') ''BUY'' (Some 3) (Some 0) 1 initial_portfolio
       = (InvalidOrder, initial_portfolio)
   \<and> handleTradeExecution exact None ''BUY'' (Some 3) (Some 214.2) 1 initial_portfolio
       = (InvalidOrder, initial_portfolio)
   \<and> \<not> availableFunds initial_portfolio < exact (214.2 * 2)
   \<and> fst (handleTradeExecution exact (Some ''AAPL'') ''BUY'' (parseInt_js ''2.5'') (Some 214.2) 1
        initial_portfolio) = Executed"
proof -
  have f: "\<not> availableFunds initial_portfolio < exact (214.2 * 2)"
    by (simp add: initial_portfolio_def)
  have n: "parseInt_js ''-3'' = Some (- 3)" and a: "parseInt_js ''abc'' = None"
    using parseInt_samples by simp_all
  from n have e: "\<exists>q. parseInt_js ''-3'' = Some q \<and> q \<le> 0"
    by simp
  from n e a f
    invalid_order_rejected [where fl = exact and symb' = "''AAPL''" and p' = "214.2"
      and s' = initial_portfolio and now' = 1]
    invalid_order_rejected [of "Some ''AAPL''" "parseInt_js ''-3''" "Some 214.2" exact "''SELL''" 1 initial_portfolio]
    invalid_order_rejected [of "Some ''AAPL''" "parseInt_js ''abc''" "Some 214.2" exact "''SELL''" 1 initial_portfolio]
    invalid_order_rejected [of "Some ''AAPL''" "Some 3" "Some 0" exact "''BUY''" 1 initial_portfolio]
    invalid_order_rejected [of None "Some 3" "Some 214.2" exact "''BUY''" 1 initial_portfolio]
  show ?thesis
    by (simp add: falsy_string_def)
qed

subsection \<open>The two business rejections\<close>

text \<open>
  C4, as the specification states it: a BUY with valid details ends in
  \<open>InsufficientFunds\<close> if and only if the available funds are below price * quantity. The
  double nearest to 100000 / 3 is \<open>4581298449066667 / 2 ^ 37\<close> (printed as
  33333.333333333336). Three shares at this price cost more than the funds 100000 of the
  initial ledger, but the product is rounded to 100000 and the BUY is executed.
\<close>

theorem business_errors_counterexample:
  "round_double (100000 / 3) = 4581298449066667 / 2 ^ 37
   \<and> availableFunds initial_portfolio < 4581298449066667 / 2 ^ 37 * of_int 3
   \<and> fst (handleTradeExecution round_double (Some ''AAPL'') ''BUY'' (Some 3)
           (Some (4581298449066667 / 2 ^ 37)) 1 initial_portfolio) = Executed"
proof -
  have p: "round_double (100000 / 3) = 4581298449066667 / 2 ^ 37"
    using round_double_eval [of 15 "100000 / 3"]
    by (simp add: round_even_def power_int_minus_divide)
  have c: "round_double (4581298449066667 / 2 ^ 37 * 3) = 100000"
    using round_double_eval [of 16 "4581298449066667 / 2 ^ 37 * 3"]
    by (simp add: round_even_def power_int_minus_divide)
  have x: "fst (handleTradeExecution round_double (Some ''AAPL'') ''BUY'' (Some 3)
           (Some (4581298449066667 / 2 ^ 37)) 1 initial_portfolio) = Executed"
    using c by (simp add: hte_valid_fst buy_outcome initial_portfolio_def)
  from p x show ?thesis
    by (simp add: initial_portfolio_def)
qed

text \<open>
  C4, amended. For order details that pass the guard: a BUY ends in \<open>InsufficientFunds\<close> if
  and only if the available funds are below the amount price * quantity as the handler
  computes it, that is rounded to the nearest double; a SELL ends in
  \<open>InsufficientHoldings\<close> if and only if there is no holding for the symbol or the
  quantity held is below the quantity of the order; and after a SELL of the whole holding
  (which removes it), a further SELL of that symbol ends in \<open>InsufficientHoldings\<close>.
\<close>

theorem business_errors_iff:
  assumes "symb \<noteq> []" and "0 < q" and "p \<noteq> 0" and "0 < q'" and "p' \<noteq> 0"
  shows "(fst (handleTradeExecution fl (Some symb) ''BUY'' (Some q) (Some p) now s) = InsufficientFunds
            \<longleftrightarrow> availableFunds s < fl (p * of_int q))
       \<and> (type \<noteq> ''BUY'' \<longrightarrow>
           (fst (handleTradeExecution fl (Some symb) type (Some q) (Some p) now s) = InsufficientHoldings
            \<longleftrightarrow> holdings s symb = None \<or> (\<exists>h. holdings s symb = Some h \<and> quantity h < q)))
       \<and> (type \<noteq> ''BUY'' \<and> (\<exists>h. holdings s symb = Some h \<and> quantity h = q) \<longrightarrow>
           fst (handleTradeExecution fl (Some symb) type (Some q) (Some p) now s) = Executed \<and>
           holdings (snd (handleTradeExecution fl (Some symb) type (Some q) (Some p) now s)) symb = None \<and>
           fst (handleTradeExecution fl (Some symb) type (Some q') (Some p') now'
                  (snd (handleTradeExecution fl (Some symb) type (Some q) (Some p) now s))) = InsufficientHoldings)"
  using assms
  by (auto simp: hte_valid_fst hte_valid_snd buy_outcome sell_outcome Let_def sell_def push_order_def
           split: option.splits if_splits)

theorem business_errors_iff_witness:
  "holdings (snd (handleTradeExecution round_double (Some ''AAPL'') ''BUY'' (Some 10) (Some 214) 1
       initial_portfolio)) ''AAPL''
     = Some \<lparr>quantity = 10, avgPrice = 214\<rparr>
   \<and> availableFunds (snd (handleTradeExecution round_double (Some ''AAPL'') ''BUY'' (Some 10) (Some 214) 1
       initial_portfolio))
     < round_double (10000 * of_int 10)
   \<and> fst (handleTradeExecution round_double (Some ''AAPL'') ''BUY'' (Some 10) (Some 10000) 2
       (snd (handleTradeExecution round_double (Some ''AAPL'') ''BUY'' (Some 10) (Some 214) 1 initial_portfolio)))
     = InsufficientFunds
   \<and> fst (handleTradeExecution round_double (Some ''AAPL'') ''SELL'' (Some 10) (Some 10000) 2
       (snd (handleTradeExecution round_double (Some ''AAPL'') ''BUY'' (Some 10) (Some 214) 1 initial_portfolio)))
     = Executed
   \<and> fst (handleTradeExecution round_double (Some ''AAPL'') ''SELL'' (Some 1) (Some 225) 3
       (snd (handleTradeExecution round_double (Some ''AAPL'') ''SELL'' (Some 10) (Some 10000) 2
         (snd (handleTradeExecution round_double (Some ''AAPL'') ''BUY'' (Some 10) (Some 214) 1
           initial_portfolio)))))
     = InsufficientHoldings"
proof -
  let ?s = "snd (handleTradeExecution round_double (Some ''AAPL'') ''BUY'' (Some 10) (Some 214) 1
       initial_portfolio)"
  have h: "holdings ?s ''AAPL'' = Some \<lparr>quantity = 10, avgPrice = 214\<rparr>"
    and f: "availableFunds ?s < round_double (10000 * of_int 10)"
    by (simp_all add: hte_valid_snd buy_def push_order_def initial_portfolio_def Let_def round_double_int)
  from h have e: "\<exists>h. holdings ?s ''AAPL'' = Some h \<and> quantity h = 10"
    by simp
  from h f e
    business_errors_iff [where symb = "''AAPL''" and q = 10 and p = 10000 and q' = 1 and p' = 225
      and fl = round_double and now = 2 and s = ?s and type = "''SELL''" and now' = 3]
  show ?thesis
    by simp
qed

subsection \<open>Holdings\<close>

lemma buy_holdings:
  "fst (buy fl symb q p s) = Executed \<Longrightarrow>
   holdings (snd (buy fl symb q p s)) =
     (holdings s)(symb \<mapsto>
        (case holdings s symb of
           None \<Rightarrow> \<lparr>quantity = q, avgPrice = p\<rparr>
         | Some h \<Rightarrow> \<lparr>quantity = quantity h + q,
                      avgPrice = fl (fl (fl (avgPrice h * of_int (quantity h)) + fl (p * of_int q))
                                     / of_int (quantity h + q))\<rparr>))"
  by (auto simp: buy_def Let_def split: option.splits if_splits)

lemma sell_holdings:
  "fst (sell fl symb q p s) = Executed \<Longrightarrow>
   holdings (snd (sell fl symb q p s)) =
     (case holdings s symb of
        None \<Rightarrow> holdings s
      | Some h \<Rightarrow> if quantity h = q then (holdings s)(symb := None)
                  else (holdings s)(symb \<mapsto> h\<lparr>quantity := quantity h - q\<rparr>))"
  by (auto simp: sell_def Let_def split: option.splits if_splits)

lemma push_order_holdings: "holdings (push_order symb type p q now s) = holdings s"
  by (simp add: push_order_def)

lemma hte_holdings:
  assumes "fst (handleTradeExecution fl (Some symb) type (Some q) (Some p) now s) = Executed"
  shows "holdings (snd (handleTradeExecution fl (Some symb) type (Some q) (Some p) now s)) =
         (if type = ''BUY'' then holdings (snd (buy fl symb q p s)) else holdings (snd (sell fl symb q p s)))
         \<and> (if type = ''BUY'' then fst (buy fl symb q p s) else fst (sell fl symb q p s)) = Executed
         \<and> 0 < q"
proof -
  from hte_Executed_valid [OF assms] have v: "symb \<noteq> []" "0 < q" "p \<noteq> 0"
    by auto
  with assms show ?thesis
    by (auto simp: hte_valid_fst hte_valid_snd Let_def push_order_holdings split: if_splits)
qed

text \<open>
  C5. Average price on BUY: a BUY of q1 at p1 for a symbol without a holding leaves the
  holding (q1, p1); a second BUY of q2 at p2 of the same symbol leaves the quantity
  q1 + q2 and the average (p1 * q1 + p2 * q2) / (q1 + q2). In general a BUY into a holding
  leaves the weighted average
  (old average * old quantity + price * quantity) / (old quantity + quantity).
  The handler evaluates these expressions with each product, the sum and the quotient
  rounded (the first two conjuncts); without rounding they are the formulas above (the
  last two).
\<close>

theorem average_price_on_buy:
  "(holdings s symb = None \<and>
    fst (handleTradeExecution fl (Some symb) ''BUY'' (Some q1) (Some p1) t1 s) = Executed \<and>
    fst (handleTradeExecution fl (Some symb) ''BUY'' (Some q2) (Some p2) t2
           (snd (handleTradeExecution fl (Some symb) ''BUY'' (Some q1) (Some p1) t1 s))) = Executed
    \<longrightarrow>
      holdings (snd (handleTradeExecution fl (Some symb) ''BUY'' (Some q1) (Some p1) t1 s)) symb
        = Some \<lparr>quantity = q1, avgPrice = p1\<rparr>
    \<and> holdings (snd (handleTradeExecution fl (Some symb) ''BUY'' (Some q2) (Some p2) t2
           (snd (handleTradeExecution fl (Some symb) ''BUY'' (Some q1) (Some p1) t1 s)))) symb
        = Some \<lparr>quantity = q1 + q2,
                avgPrice = fl (fl (fl (p1 * of_int q1) + fl (p2 * of_int q2)) / of_int (q1 + q2))\<rparr>
    \<and> 0 < q1 + q2)
   \<and> (holdings s' symb = Some h \<and> 0 < quantity h \<and>
      fst (handleTradeExecution fl (Some symb) ''BUY'' (Some q) (Some p) now s') = Executed
      \<longrightarrow>
        holdings (snd (handleTradeExecution fl (Some symb) ''BUY'' (Some q) (Some p) now s')) symb
          = Some \<lparr>quantity = quantity h + q,
                  avgPrice = fl (fl (fl (avgPrice h * of_int (quantity h)) + fl (p * of_int q))
                                 / of_int (quantity h + q))\<rparr>
      \<and> 0 < quantity h + q)
   \<and> (holdings s symb = None \<and>
    fst (handleTradeExecution exact (Some symb) ''BUY'' (Some q1) (Some p1) t1 s) = Executed \<and>
    fst (handleTradeExecution exact (Some symb) ''BUY'' (Some q2) (Some p2) t2
           (snd (handleTradeExecution exact (Some symb) ''BUY'' (Some q1) (Some p1) t1 s))) = Executed
    \<longrightarrow>
      holdings (snd (handleTradeExecution exact (Some symb) ''BUY'' (Some q1) (Some p1) t1 s)) symb
        = Some \<lparr>quantity = q1, avgPrice = p1\<rparr>
    \<and> holdings (snd (handleTradeExecution exact (Some symb) ''BUY'' (Some q2) (Some p2) t2
           (snd (handleTradeExecution exact (Some symb) ''BUY'' (Some q1) (Some p1) t1 s)))) symb
        = Some \<lparr>quantity = q1 + q2,
                avgPrice = (p1 * of_int q1 + p2 * of_int q2) / (of_int q1 + of_int q2)\<rparr>
    \<and> 0 < q1 + q2)
   \<and> (holdings s' symb = Some h \<and> 0 < quantity h \<and>
      fst (handleTradeExecution exact (Some symb) ''BUY'' (Some q) (Some p) now s') = Executed
      \<longrightarrow>
        holdings (snd (handleTradeExecution exact (Some symb) ''BUY'' (Some q) (Some p) now s')) symb
          = Some \<lparr>quantity = quantity h + q,
                  avgPrice = (avgPrice h * of_int (quantity h) + p * of_int q) / of_int (quantity h + q)\<rparr>
      \<and> 0 < quantity h + q)"
proof -
  have two: "holdings (snd (handleTradeExecution fl (Some symb) ''BUY'' (Some q1) (Some p1) t1 s)) symb
        = Some \<lparr>quantity = q1, avgPrice = p1\<rparr>
    \<and> holdings (snd (handleTradeExecution fl (Some symb) ''BUY'' (Some q2) (Some p2) t2
           (snd (handleTradeExecution fl (Some symb) ''BUY'' (Some q1) (Some p1) t1 s)))) symb
        = Some \<lparr>quantity = q1 + q2,
                avgPrice = fl (fl (fl (p1 * of_int q1) + fl (p2 * of_int q2)) / of_int (q1 + q2))\<rparr>
    \<and> 0 < q1 + q2"
    if a: "holdings s symb = None \<and>
      fst (handleTradeExecution fl (Some symb) ''BUY'' (Some q1) (Some p1) t1 s) = Executed \<and>
      fst (handleTradeExecution fl (Some symb) ''BUY'' (Some q2) (Some p2) t2
           (snd (handleTradeExecution fl (Some symb) ''BUY'' (Some q1) (Some p1) t1 s))) = Executed"
    for fl
  proof -
    let ?s1 = "snd (handleTradeExecution fl (Some symb) ''BUY'' (Some q1) (Some p1) t1 s)"
    from a hte_holdings [of fl symb "''BUY''" q1 p1 t1 s]
    have h1: "holdings ?s1 symb = Some \<lparr>quantity = q1, avgPrice = p1\<rparr>"
      by (simp add: buy_holdings)
    from a hte_holdings [of fl symb "''BUY''" q1 p1 t1 s] have q1: "0 < q1"
      by simp
    from a hte_holdings [of fl symb "''BUY''" q2 p2 t2 ?s1] h1
    have h2: "holdings (snd (handleTradeExecution fl (Some symb) ''BUY'' (Some q2) (Some p2) t2 ?s1)) symb
        = Some \<lparr>quantity = q1 + q2,
                avgPrice = fl (fl (fl (p1 * of_int q1) + fl (p2 * of_int q2)) / of_int (q1 + q2))\<rparr>"
      by (simp add: buy_holdings)
    from a hte_holdings [of fl symb "''BUY''" q2 p2 t2 ?s1] q1 have "0 < q1 + q2"
      by simp
    with h1 h2 show ?thesis
      by simp
  qed
  have one: "holdings (snd (handleTradeExecution fl (Some symb) ''BUY'' (Some q) (Some p) now s')) symb
          = Some \<lparr>quantity = quantity h + q,
                  avgPrice = fl (fl (fl (avgPrice h * of_int (quantity h)) + fl (p * of_int q))
                                 / of_int (quantity h + q))\<rparr>
      \<and> 0 < quantity h + q"
    if b: "holdings s' symb = Some h \<and> 0 < quantity h \<and>
      fst (handleTradeExecution fl (Some symb) ''BUY'' (Some q) (Some p) now s') = Executed"
    for fl
    using b hte_holdings [of fl symb "''BUY''" q p now s'] by (simp add: buy_holdings)
  from two [of fl] one [of fl] two [of exact] one [of exact] show ?thesis
    by (simp add: exact_def)
qed

theorem average_price_on_buy_witness:
  "holdings initial_portfolio ''AAPL'' = None
   \<and> fst (handleTradeExecution exact (Some ''AAPL'') ''BUY'' (Some 10) (Some 214.2) 1 initial_portfolio) = Executed
   \<and> fst (handleTradeExecution exact (Some ''AAPL'') ''BUY'' (Some 5) (Some 220) 2
        (snd (handleTradeExecution exact (Some ''AAPL'') ''BUY'' (Some 10) (Some 214.2) 1 initial_portfolio))) = Executed
   \<and> holdings (snd (handleTradeExecution exact (Some ''AAPL'') ''BUY'' (Some 10) (Some 214.2) 1 initial_portfolio)) ''AAPL''
       = Some \<lparr>quantity = 10, avgPrice = 214.2\<rparr>
   \<and> holdings (snd (handleTradeExecution exact (Some ''AAPL'') ''BUY'' (Some 5) (Some 220) 2
        (snd (handleTradeExecution exact (Some ''AAPL'') ''BUY'' (Some 10) (Some 214.2) 1 initial_portfolio)))) ''AAPL''
       = Some \<lparr>quantity = 15, avgPrice = 3242 / 15\<rparr>"
proof -
  let ?s1 = "snd (handleTradeExecution exact (Some ''AAPL'') ''BUY'' (Some 10) (Some 214.2) 1 initial_portfolio)"
  have e: "holdings initial_portfolio ''AAPL'' = None"
    by (simp add: initial_portfolio_def)
  have b1: "fst (handleTradeExecution exact (Some ''AAPL'') ''BUY'' (Some 10) (Some 214.2) 1 initial_portfolio) = Executed"
    by (simp add: hte_valid_fst buy_outcome initial_portfolio_def exact_def)
  have b2: "fst (handleTradeExecution exact (Some ''AAPL'') ''BUY'' (Some 5) (Some 220) 2 ?s1) = Executed"
    by (simp add: hte_valid_fst hte_valid_snd buy_outcome buy_def push_order_def initial_portfolio_def
          Let_def exact_def)
  have h1: "holdings ?s1 ''AAPL'' = Some \<lparr>quantity = 10, avgPrice = 214.2\<rparr>"
    by (simp add: hte_valid_snd buy_def push_order_def initial_portfolio_def Let_def exact_def)
  from e b1 b2 h1
    average_price_on_buy [where fl = exact and s = initial_portfolio and symb = "''AAPL''" and ?q1.0 = 10
       and ?p1.0 = "214.2" and ?t1.0 = 1 and ?q2.0 = 5 and ?p2.0 = 220 and ?t2.0 = 2
       and s' = ?s1 and h = "\<lparr>quantity = 10, avgPrice = 214.2\<rparr>" and q = 5 and p = 220 and now = 2]
  show ?thesis
    by (simp add: exact_def)
qed

lemma buy_positive:
  "holdings_positive s \<Longrightarrow> 0 < q \<Longrightarrow> holdings_positive (snd (buy fl symb q p s))"
proof (cases "fst (buy fl symb q p s) = Executed")
  case False
  assume "holdings_positive s"
  with False show ?thesis by (simp add: buy_rejected)
next
  case True
  assume pos: "holdings_positive s" and q: "0 < q"
  show ?thesis
    unfolding holdings_positive_def
  proof (intro allI impI)
    fix symb' h
    assume h: "holdings (snd (buy fl symb q p s)) symb' = Some h"
    show "0 < quantity h"
    proof (cases "holdings s symb")
      case None
      with h q pos show ?thesis
        by (auto simp: buy_holdings [OF True] holdings_positive_def split: if_splits)
    next
      case (Some h0)
      with pos have "0 < quantity h0"
        by (simp add: holdings_positive_def)
      with q have "0 < quantity h0 + q"
        by arith
      with Some h pos show ?thesis
        by (auto simp: buy_holdings [OF True] holdings_positive_def split: if_splits)
    qed
  qed
qed

lemma sell_positive:
  "holdings_positive s \<Longrightarrow> holdings_positive (snd (sell fl symb q p s))"
  by (cases "fst (sell fl symb q p s) = Executed")
     (auto simp: sell_rejected sell_holdings sell_outcome holdings_positive_def split: option.splits if_splits)

lemma hte_positive:
  assumes "holdings_positive s"
  shows "holdings_positive (snd (handleTradeExecution fl symbol type qty price now s))"
proof (cases "fst (handleTradeExecution fl symbol type qty price now s) = Executed")
  case False
  with assms show ?thesis by (simp add: hte_rejected)
next
  case True
  from hte_Executed_valid [OF True] obtain symb q p where
    v: "symbol = Some symb" "qty = Some q" "price = Some p" "symb \<noteq> []" "0 < q" "p \<noteq> 0"
    by auto
  have "holdings_positive (push_order symb type p q now s') = holdings_positive s'" for s'
    by (simp add: holdings_positive_def push_order_holdings)
  with v assms show ?thesis
    by (simp add: hte_valid_snd Let_def buy_positive sell_positive)
qed

lemma submit_all_positive: "holdings_positive s \<Longrightarrow> holdings_positive (submit_all fl es s)"
  by (induction es arbitrary: s) (simp_all add: submit_def hte_positive)

lemma initial_positive: "holdings_positive initial_portfolio"
  by (simp add: holdings_positive_def initial_portfolio_def)

text \<open>
  C6. The holdings invariant: every call of the handler keeps all quantities held
  positive, so that every symbol in the holdings after any session from the initial ledger
  has a positive quantity and none is ever negative. An executed SELL of a holding sells
  at most what is held; when it sells all of it, the symbol is removed from the holdings;
  otherwise the holding stays with the quantity lowered and the average price unchanged.
  Quantities are integers, and none of this depends on the rounding \<open>fl\<close>.
\<close>

theorem holdings_invariant:
  "(holdings_positive s \<longrightarrow> holdings_positive (snd (handleTradeExecution fl symbol type qty price now s)))
   \<and> (holdings (submit_all fl es initial_portfolio) symb = Some h \<longrightarrow> 0 < quantity h)
   \<and> (type \<noteq> ''BUY'' \<and> holdings s symb = Some h' \<and>
        fst (handleTradeExecution fl (Some symb) type (Some q) (Some p) now s) = Executed \<longrightarrow>
        q \<le> quantity h' \<and>
        holdings (snd (handleTradeExecution fl (Some symb) type (Some q) (Some p) now s)) symb =
          (if quantity h' = q then None else Some (h'\<lparr>quantity := quantity h' - q\<rparr>)))"
proof (intro conjI impI)
  assume "holdings_positive s"
  then show "holdings_positive (snd (handleTradeExecution fl symbol type qty price now s))"
    by (rule hte_positive)
next
  assume "holdings (submit_all fl es initial_portfolio) symb = Some h"
  with submit_all_positive [OF initial_positive, of fl es] show "0 < quantity h"
    by (simp add: holdings_positive_def)
next
  assume a: "type \<noteq> ''BUY'' \<and> holdings s symb = Some h' \<and>
        fst (handleTradeExecution fl (Some symb) type (Some q) (Some p) now s) = Executed"
  with hte_holdings [of fl symb type q p now s] show "q \<le> quantity h'"
    by (simp add: sell_outcome split: if_splits)
  from a hte_holdings [of fl symb type q p now s]
  show "holdings (snd (handleTradeExecution fl (Some symb) type (Some q) (Some p) now s)) symb =
          (if quantity h' = q then None else Some (h'\<lparr>quantity := quantity h' - q\<rparr>))"
    by (simp add: sell_holdings)
qed


theorem holdings_invariant_witness:
  "holdings_positive (snd (handleTradeExecution exact (Some ''AAPL'') ''BUY'' (Some 10) (Some 214.2) 1 initial_portfolio))
   \<and> holdings (submit_all exact
        [\<lparr>ev_symbol = Some ''AAPL'', ev_type = ''BUY'', ev_quantity = Some 10, ev_price = Some 214.2, ev_now = 1\<rparr>,
         \<lparr>ev_symbol = Some ''AAPL'', ev_type = ''SELL'', ev_quantity = Some 4, ev_price = Some 220, ev_now = 2\<rparr>]
        initial_portfolio) ''AAPL'' = Some \<lparr>quantity = 6, avgPrice = 214.2\<rparr>
   \<and> holdings (snd (handleTradeExecution exact (Some ''AAPL'') ''BUY'' (Some 10) (Some 214.2) 1 initial_portfolio)) ''AAPL''
       = Some \<lparr>quantity = 10, avgPrice = 214.2\<rparr>
   \<and> fst (handleTradeExecution exact (Some ''AAPL'') ''SELL'' (Some 10) (Some 220) 2
        (snd (handleTradeExecution exact (Some ''AAPL'') ''BUY'' (Some 10) (Some 214.2) 1 initial_portfolio))) = Executed
   \<and> holdings (snd (handleTradeExecution exact (Some ''AAPL'') ''SELL'' (Some 10) (Some 220) 2
        (snd (handleTradeExecution exact (Some ''AAPL'') ''BUY'' (Some 10) (Some 214.2) 1 initial_portfolio)))) ''AAPL''
       = None
   \<and> holdings_positive (snd (handleTradeExecution exact (Some ''AAPL'') ''SELL'' (Some 10) (Some 220) 2
        (snd (handleTradeExecution exact (Some ''AAPL'') ''BUY'' (Some 10) (Some 214.2) 1 initial_portfolio))))"
proof -
  let ?es = "[\<lparr>ev_symbol = Some ''AAPL'', ev_type = ''BUY'', ev_quantity = Some 10, ev_price = Some 214.2, ev_now = 1\<rparr>,
         \<lparr>ev_symbol = Some ''AAPL'', ev_type = ''SELL'', ev_quantity = Some 4, ev_price = Some 220, ev_now = 2\<rparr>]"
  let ?s1 = "snd (handleTradeExecution exact (Some ''AAPL'') ''BUY'' (Some 10) (Some 214.2) 1 initial_portfolio)"
  have h1: "holdings ?s1 = [''AAPL'' \<mapsto> \<lparr>quantity = 10, avgPrice = 214.2\<rparr>]"
    by (simp add: hte_valid_snd buy_def push_order_def initial_portfolio_def Let_def)
  then have p1: "holdings_positive ?s1"
    by (simp add: holdings_positive_def)
  have r: "holdings (submit_all exact ?es initial_portfolio) ''AAPL'' = Some \<lparr>quantity = 6, avgPrice = 214.2\<rparr>"
    by (simp add: submit_def hte_valid_snd buy_def sell_def push_order_def initial_portfolio_def Let_def)
  have x: "fst (handleTradeExecution exact (Some ''AAPL'') ''SELL'' (Some 10) (Some 220) 2 ?s1) = Executed"
    by (simp add: hte_valid_fst hte_valid_snd sell_outcome buy_def push_order_def initial_portfolio_def Let_def)
  from p1 r h1 x
    holdings_invariant [where fl = exact and s = ?s1 and symbol = "Some ''AAPL''" and type = "''SELL''"
       and qty = "Some 10" and price = "Some 220" and now = 2 and es = ?es and symb = "''AAPL''"
       and h = "\<lparr>quantity = 6, avgPrice = 214.2\<rparr>" and h' = "\<lparr>quantity = 10, avgPrice = 214.2\<rparr>"
       and q = 10 and p = 220]
  show ?thesis
    by simp
qed


subsection \<open>The order history\<close>

lemma hte_orders:
  "orders (snd (handleTradeExecution fl (Some symb) type (Some q) (Some p) now s)) =
     (if fst (handleTradeExecution fl (Some symb) type (Some q) (Some p) now s) = Executed
      then orders s @
        [\<lparr>order_symbol = symb, order_type = type, order_price = p, order_quantity = q,
          order_status = ''Executed'', order_timestamp = now\<rparr>]
      else orders s)"
proof (cases "fst (handleTradeExecution fl (Some symb) type (Some q) (Some p) now s) = Executed")
  case False
  then show ?thesis by (simp add: hte_rejected)
next
  case True
  from hte_Executed_valid [OF True] have "symb \<noteq> []" "0 < q" "p \<noteq> 0"
    by auto
  with True show ?thesis
    by (auto simp: hte_valid_fst hte_valid_snd Let_def push_order_def buy_orders sell_orders
             split: if_splits)
qed

lemma submit_orders:
  "orders (snd (submit fl e s)) =
     (if fst (submit fl e s) = Executed then orders s @ [order_of e] else orders s)"
proof (cases "fst (submit fl e s) = Executed")
  case False
  then show ?thesis by (simp add: submit_rejected)
next
  case True
  from submit_Executed_valid [OF True] obtain symb q p where
    v: "ev_symbol e = Some symb" "ev_quantity e = Some q" "ev_price e = Some p"
    by auto
  with True hte_orders [of fl symb "ev_type e" q p "ev_now e" s] show ?thesis
    by (simp add: submit_def order_of_def)
qed

lemma submit_all_orders: "orders (submit_all fl es s) = orders s @ map order_of (executed fl es s)"
  by (induction es arbitrary: s) (simp_all add: submit_orders)

lemma executed_subset: "set (executed fl es s) \<subseteq> set es"
  by (induction es arbitrary: s) auto

lemma executed_sorted: "sorted (map ev_now es) \<Longrightarrow> sorted (map ev_now (executed fl es s))"
proof (induction es arbitrary: s)
  case Nil
  show ?case by simp
next
  case (Cons e es)
  from Cons.prems have tl: "sorted (map ev_now es)" and hd: "\<forall>x\<in>set es. ev_now e \<le> ev_now x"
    by simp_all
  from hd executed_subset [of fl es "snd (submit fl e s)"]
  have "\<forall>x\<in>set (executed fl es (snd (submit fl e s))). ev_now e \<le> ev_now x"
    by blast
  with Cons.IH [OF tl, of "snd (submit fl e s)"] show ?case
    by simp
qed

lemma order_of_timestamps: "map order_timestamp (map order_of es) = map ev_now es"
  by (simp add: order_of_def)

text \<open>
  C7. The order history is append-only: an executed call appends exactly one order, at the
  end, with the status "Executed" and the details of the call; a rejected call appends
  nothing; a session leaves the history it found, followed by the orders of its executed
  submissions in the order of their submission, so that no earlier order is changed or
  removed and the length grows by one per execution; no other status occurs; and when the
  clock does not run backwards between the submissions, the history is in the order of
  its time stamps. None of this depends on the rounding \<open>fl\<close>.
\<close>

theorem order_history_append_only:
  "(fst (handleTradeExecution fl (Some symb) type (Some q) (Some p) now s) = Executed \<longrightarrow>
      orders (snd (handleTradeExecution fl (Some symb) type (Some q) (Some p) now s)) =
        orders s @ [\<lparr>order_symbol = symb, order_type = type, order_price = p, order_quantity = q,
                     order_status = ''Executed'', order_timestamp = now\<rparr>])
   \<and> (fst (handleTradeExecution fl symbol type qty price now s) \<noteq> Executed \<longrightarrow>
      orders (snd (handleTradeExecution fl symbol type qty price now s)) = orders s)
   \<and> orders (submit_all fl es s) = orders s @ map order_of (executed fl es s)
   \<and> length (orders (submit_all fl es s)) = length (orders s) + length (executed fl es s)
   \<and> (\<forall>x \<in> set (orders (submit_all fl es initial_portfolio)). order_status x = ''Executed'')
   \<and> (sorted (map ev_now es) \<longrightarrow>
        sorted (map order_timestamp (orders (submit_all fl es initial_portfolio))))"
proof (intro conjI impI ballI)
  assume "fst (handleTradeExecution fl (Some symb) type (Some q) (Some p) now s) = Executed"
  then show "orders (snd (handleTradeExecution fl (Some symb) type (Some q) (Some p) now s)) =
        orders s @ [\<lparr>order_symbol = symb, order_type = type, order_price = p, order_quantity = q,
                     order_status = ''Executed'', order_timestamp = now\<rparr>]"
    by (simp add: hte_orders)
next
  assume "fst (handleTradeExecution fl symbol type qty price now s) \<noteq> Executed"
  then show "orders (snd (handleTradeExecution fl symbol type qty price now s)) = orders s"
    by (simp add: hte_rejected)
next
  show "orders (submit_all fl es s) = orders s @ map order_of (executed fl es s)"
    by (rule submit_all_orders)
  then show "length (orders (submit_all fl es s)) = length (orders s) + length (executed fl es s)"
    by simp
next
  fix x
  assume "x \<in> set (orders (submit_all fl es initial_portfolio))"
  then show "order_status x = ''Executed''"
    by (auto simp: submit_all_orders initial_portfolio_def order_of_def)
next
  assume "sorted (map ev_now es)"
  then have "sorted (map ev_now (executed fl es initial_portfolio))"
    by (rule executed_sorted)
  then show "sorted (map order_timestamp (orders (submit_all fl es initial_portfolio)))"
    by (simp add: submit_all_orders initial_portfolio_def order_of_timestamps del: map_map)
qed


theorem order_history_append_only_witness:
  "fst (handleTradeExecution exact (Some ''AAPL'') ''BUY'' (Some 10) (Some 214.2) 1 initial_portfolio) = Executed
   \<and> orders (snd (handleTradeExecution exact (Some ''AAPL'') ''BUY'' (Some 10) (Some 214.2) 1 initial_portfolio))
       = [\<lparr>order_symbol = ''AAPL'', order_type = ''BUY'', order_price = 214.2, order_quantity = 10,
            order_status = ''Executed'', order_timestamp = 1\<rparr>]
   \<and> fst (handleTradeExecution exact (Some ''AAPL'') ''BUY'' (Some 1000) (Some 214.2) 1 initial_portfolio)
       = InsufficientFunds
   \<and> orders (snd (handleTradeExecution exact (Some ''AAPL'') ''BUY'' (Some 1000) (Some 214.2) 1 initial_portfolio)) = []
   \<and> sorted (map ev_now
       [\<lparr>ev_symbol = Some ''AAPL'', ev_type = ''BUY'', ev_quantity = Some 10, ev_price = Some 214.2, ev_now = 1\<rparr>,
        \<lparr>ev_symbol = Some ''AAPL'', ev_type = ''SELL'', ev_quantity = Some 20, ev_price = Some 220, ev_now = 2\<rparr>,
        \<lparr>ev_symbol = Some ''AAPL'', ev_type = ''SELL'', ev_quantity = Some 4, ev_price = Some 220, ev_now = 3\<rparr>])
   \<and> orders (submit_all exact
       [\<lparr>ev_symbol = Some ''AAPL'', ev_type = ''BUY'', ev_quantity = Some 10, ev_price = Some 214.2, ev_now = 1\<rparr>,
        \<lparr>ev_symbol = Some ''AAPL'', ev_type = ''SELL'', ev_quantity = Some 20, ev_price = Some 220, ev_now = 2\<rparr>,
        \<lparr>ev_symbol = Some ''AAPL'', ev_type = ''SELL'', ev_quantity = Some 4, ev_price = Some 220, ev_now = 3\<rparr>]
       initial_portfolio)
       = [\<lparr>order_symbol = ''AAPL'', order_type = ''BUY'', order_price = 214.2, order_quantity = 10,
            order_status = ''Executed'', order_timestamp = 1\<rparr>,
          \<lparr>order_symbol = ''AAPL'', order_type = ''SELL'', order_price = 220, order_quantity = 4,
            order_status = ''Executed'', order_timestamp = 3\<rparr>]
   \<and> sorted (map order_timestamp (orders (submit_all exact
       [\<lparr>ev_symbol = Some ''AAPL'', ev_type = ''BUY'', ev_quantity = Some 10, ev_price = Some 214.2, ev_now = 1\<rparr>,
        \<lparr>ev_symbol = Some ''AAPL'', ev_type = ''SELL'', ev_quantity = Some 20, ev_price = Some 220, ev_now = 2\<rparr>,
        \<lparr>ev_symbol = Some ''AAPL'', ev_type = ''SELL'', ev_quantity = Some 4, ev_price = Some 220, ev_now = 3\<rparr>]
       initial_portfolio)))"
proof -
  let ?es = "[\<lparr>ev_symbol = Some ''AAPL'', ev_type = ''BUY'', ev_quantity = Some 10, ev_price = Some 214.2, ev_now = 1\<rparr>,
        \<lparr>ev_symbol = Some ''AAPL'', ev_type = ''SELL'', ev_quantity = Some 20, ev_price = Some 220, ev_now = 2\<rparr>,
        \<lparr>ev_symbol = Some ''AAPL'', ev_type = ''SELL'', ev_quantity = Some 4, ev_price = Some 220, ev_now = 3\<rparr>]"
  have b: "fst (handleTradeExecution exact (Some ''AAPL'') ''BUY'' (Some 10) (Some 214.2) 1 initial_portfolio) = Executed"
    by (simp add: hte_valid_fst buy_outcome initial_portfolio_def)
  have r: "fst (handleTradeExecution exact (Some ''AAPL'') ''BUY'' (Some 1000) (Some 214.2) 1 initial_portfolio)
      = InsufficientFunds"
    by (simp add: hte_valid_fst buy_outcome initial_portfolio_def)
  have ex: "executed exact ?es initial_portfolio =
     [\<lparr>ev_symbol = Some ''AAPL'', ev_type = ''BUY'', ev_quantity = Some 10, ev_price = Some 214.2, ev_now = 1\<rparr>,
      \<lparr>ev_symbol = Some ''AAPL'', ev_type = ''SELL'', ev_quantity = Some 4, ev_price = Some 220, ev_now = 3\<rparr>]"
    by (simp add: submit_def hte_valid_fst hte_valid_snd buy_outcome sell_outcome
          initial_portfolio_def Let_def buy_def sell_def push_order_def)
  have so: "sorted (map ev_now ?es)"
    by simp
  have i: "orders initial_portfolio = []"
    by (simp add: initial_portfolio_def)
  from b r ex so i
    order_history_append_only [where fl = exact and symb = "''AAPL''" and type = "''BUY''" and q = 10 and p = "214.2"
      and now = 1 and s = initial_portfolio and symbol = "Some ''AAPL''" and qty = "Some 1000"
      and price = "Some 214.2" and es = ?es]
  show ?thesis
    by (simp add: order_of_def)
qed

subsection \<open>The scenario of the specification\<close>

text \<open>
  C8, as the specification states it: after BUY 10 AAPL at 214.20 and BUY 5 AAPL at 220.00
  the average price of the holding is 215.87. It is not, to two decimals or otherwise.
\<close>

theorem aapl_scenario_counterexample:
  "\<not> (\<exists>h. holdings (submit_all exact
        [\<lparr>ev_symbol = Some ''AAPL'', ev_type = ''BUY'', ev_quantity = Some 10, ev_price = Some 214.2, ev_now = 1\<rparr>,
         \<lparr>ev_symbol = Some ''AAPL'', ev_type = ''BUY'', ev_quantity = Some 5, ev_price = Some 220, ev_now = 2\<rparr>]
        initial_portfolio) ''AAPL'' = Some h
      \<and> \<bar>avgPrice h - 215.87\<bar> \<le> 0.005)"
  by (simp add: submit_def hte_valid_snd buy_def push_order_def initial_portfolio_def Let_def)

text \<open>
  C8, amended: from the funds 100000, BUY 10 AAPL at 214.20 leaves the funds 97858 and the
  holding (10, 214.20); then BUY 5 AAPL at 220 leaves the funds 96758 and the holding
  (15, 3242 / 15), which is 216.13 to two decimals; then SELL 15 AAPL at 225 leaves the
  funds 100133 and no holding. All three are executed. The theorem is the scenario in
  arithmetic without rounding; \<open>double_scenario_aapl\<close> below is the same scenario in
  doubles, where the funds are the same three numbers and the averages are the doubles
  nearest to 214.20 and to 3242 / 15.
\<close>

theorem aapl_scenario:
  "availableFunds (submit_all exact
      [\<lparr>ev_symbol = Some ''AAPL'', ev_type = ''BUY'', ev_quantity = Some 10, ev_price = Some 214.2, ev_now = 1\<rparr>]
      initial_portfolio) = 97858
   \<and> holdings (submit_all exact
      [\<lparr>ev_symbol = Some ''AAPL'', ev_type = ''BUY'', ev_quantity = Some 10, ev_price = Some 214.2, ev_now = 1\<rparr>]
      initial_portfolio) = [''AAPL'' \<mapsto> \<lparr>quantity = 10, avgPrice = 214.2\<rparr>]
   \<and> availableFunds (submit_all exact
      [\<lparr>ev_symbol = Some ''AAPL'', ev_type = ''BUY'', ev_quantity = Some 10, ev_price = Some 214.2, ev_now = 1\<rparr>,
       \<lparr>ev_symbol = Some ''AAPL'', ev_type = ''BUY'', ev_quantity = Some 5, ev_price = Some 220, ev_now = 2\<rparr>]
      initial_portfolio) = 96758
   \<and> holdings (submit_all exact
      [\<lparr>ev_symbol = Some ''AAPL'', ev_type = ''BUY'', ev_quantity = Some 10, ev_price = Some 214.2, ev_now = 1\<rparr>,
       \<lparr>ev_symbol = Some ''AAPL'', ev_type = ''BUY'', ev_quantity = Some 5, ev_price = Some 220, ev_now = 2\<rparr>]
      initial_portfolio) = [''AAPL'' \<mapsto> \<lparr>quantity = 15, avgPrice = 3242 / 15\<rparr>]
   \<and> (216.13 :: real) \<le> 3242 / 15 \<and> (3242 / 15 :: real) < 216.14
   \<and> availableFunds (submit_all exact
      [\<lparr>ev_symbol = Some ''AAPL'', ev_type = ''BUY'', ev_quantity = Some 10, ev_price = Some 214.2, ev_now = 1\<rparr>,
       \<lparr>ev_symbol = Some ''AAPL'', ev_type = ''BUY'', ev_quantity = Some 5, ev_price = Some 220, ev_now = 2\<rparr>,
       \<lparr>ev_symbol = Some ''AAPL'', ev_type = ''SELL'', ev_quantity = Some 15, ev_price = Some 225, ev_now = 3\<rparr>]
      initial_portfolio) = 100133
   \<and> holdings (submit_all exact
      [\<lparr>ev_symbol = Some ''AAPL'', ev_type = ''BUY'', ev_quantity = Some 10, ev_price = Some 214.2, ev_now = 1\<rparr>,
       \<lparr>ev_symbol = Some ''AAPL'', ev_type = ''BUY'', ev_quantity = Some 5, ev_price = Some 220, ev_now = 2\<rparr>,
       \<lparr>ev_symbol = Some ''AAPL'', ev_type = ''SELL'', ev_quantity = Some 15, ev_price = Some 225, ev_now = 3\<rparr>]
      initial_portfolio) = Map.empty
   \<and> executed exact
      [\<lparr>ev_symbol = Some ''AAPL'', ev_type = ''BUY'', ev_quantity = Some 10, ev_price = Some 214.2, ev_now = 1\<rparr>,
       \<lparr>ev_symbol = Some ''AAPL'', ev_type = ''BUY'', ev_quantity = Some 5, ev_price = Some 220, ev_now = 2\<rparr>,
       \<lparr>ev_symbol = Some ''AAPL'', ev_type = ''SELL'', ev_quantity = Some 15, ev_price = Some 225, ev_now = 3\<rparr>]
      initial_portfolio =
      [\<lparr>ev_symbol = Some ''AAPL'', ev_type = ''BUY'', ev_quantity = Some 10, ev_price = Some 214.2, ev_now = 1\<rparr>,
       \<lparr>ev_symbol = Some ''AAPL'', ev_type = ''BUY'', ev_quantity = Some 5, ev_price = Some 220, ev_now = 2\<rparr>,
       \<lparr>ev_symbol = Some ''AAPL'', ev_type = ''SELL'', ev_quantity = Some 15, ev_price = Some 225, ev_now = 3\<rparr>]"
  by (simp add: submit_def hte_valid_fst hte_valid_snd buy_outcome sell_outcome buy_def sell_def
        push_order_def initial_portfolio_def Let_def)

text \<open>
  The scenario in doubles: the price 214.20 is read as the double
  \<open>7536492501427814 / 2 ^ 45\<close>, the three amounts 2142, 1100 and 3375 and the three balances
  come out without rounding error, and the average after the second BUY is the double
  nearest to 3242 / 15, which is 216.13 to two decimals.
\<close>

lemma double_scenario_aapl:
  "round_double 214.2 = 7536492501427814 / 2 ^ 45
   \<and> availableFunds (submit_all round_double
      [\<lparr>ev_symbol = Some ''AAPL'', ev_type = ''BUY'', ev_quantity = Some 10,
        ev_price = Some (7536492501427814 / 2 ^ 45), ev_now = 1\<rparr>]
      initial_portfolio) = 97858
   \<and> holdings (submit_all round_double
      [\<lparr>ev_symbol = Some ''AAPL'', ev_type = ''BUY'', ev_quantity = Some 10,
        ev_price = Some (7536492501427814 / 2 ^ 45), ev_now = 1\<rparr>]
      initial_portfolio) = [''AAPL'' \<mapsto> \<lparr>quantity = 10, avgPrice = 7536492501427814 / 2 ^ 45\<rparr>]
   \<and> availableFunds (submit_all round_double
      [\<lparr>ev_symbol = Some ''AAPL'', ev_type = ''BUY'', ev_quantity = Some 10,
        ev_price = Some (7536492501427814 / 2 ^ 45), ev_now = 1\<rparr>,
       \<lparr>ev_symbol = Some ''AAPL'', ev_type = ''BUY'', ev_quantity = Some 5, ev_price = Some 220, ev_now = 2\<rparr>]
      initial_portfolio) = 96758
   \<and> holdings (submit_all round_double
      [\<lparr>ev_symbol = Some ''AAPL'', ev_type = ''BUY'', ev_quantity = Some 10,
        ev_price = Some (7536492501427814 / 2 ^ 45), ev_now = 1\<rparr>,
       \<lparr>ev_symbol = Some ''AAPL'', ev_type = ''BUY'', ev_quantity = Some 5, ev_price = Some 220, ev_now = 2\<rparr>]
      initial_portfolio) = [''AAPL'' \<mapsto> \<lparr>quantity = 15, avgPrice = 7604515620799556 / 2 ^ 45\<rparr>]
   \<and> (216.13 :: real) \<le> 7604515620799556 / 2 ^ 45 \<and> (7604515620799556 / 2 ^ 45 :: real) < 216.14
   \<and> availableFunds (submit_all round_double
      [\<lparr>ev_symbol = Some ''AAPL'', ev_type = ''BUY'', ev_quantity = Some 10,
        ev_price = Some (7536492501427814 / 2 ^ 45), ev_now = 1\<rparr>,
       \<lparr>ev_symbol = Some ''AAPL'', ev_type = ''BUY'', ev_quantity = Some 5, ev_price = Some 220, ev_now = 2\<rparr>,
       \<lparr>ev_symbol = Some ''AAPL'', ev_type = ''SELL'', ev_quantity = Some 15, ev_price = Some 225, ev_now = 3\<rparr>]
      initial_portfolio) = 100133
   \<and> holdings (submit_all round_double
      [\<lparr>ev_symbol = Some ''AAPL'', ev_type = ''BUY'', ev_quantity = Some 10,
        ev_price = Some (7536492501427814 / 2 ^ 45), ev_now = 1\<rparr>,
       \<lparr>ev_symbol = Some ''AAPL'', ev_type = ''BUY'', ev_quantity = Some 5, ev_price = Some 220, ev_now = 2\<rparr>,
       \<lparr>ev_symbol = Some ''AAPL'', ev_type = ''SELL'', ev_quantity = Some 15, ev_price = Some 225, ev_now = 3\<rparr>]
      initial_portfolio) = Map.empty"
proof -
  define p :: real where "p = 7536492501427814 / 2 ^ 45"
  define a :: real where "a = 7604515620799556 / 2 ^ 45"
  have r: "round_double 214.2 = p"
    unfolding p_def using round_double_eval [of 7 "214.2"]
    by (simp add: round_even_def power_int_minus_divide)
  have c: "round_double (p * 10) = 2142"
    unfolding p_def using round_double_eval [of 11 "7536492501427814 / 2 ^ 45 * 10"]
    by (simp add: round_even_def power_int_minus_divide)
  have v: "round_double (3242 / 15) = a"
    unfolding a_def using round_double_eval [of 7 "3242 / 15"]
    by (simp add: round_even_def power_int_minus_divide)
  have p0: "p \<noteq> 0"
    by (simp add: p_def)
  have bounds: "(216.13 :: real) \<le> a \<and> a < 216.14"
    by (simp add: a_def)
  let ?e1 = "\<lparr>ev_symbol = Some ''AAPL'', ev_type = ''BUY'', ev_quantity = Some 10, ev_price = Some p, ev_now = 1\<rparr>"
  let ?e2 = "\<lparr>ev_symbol = Some ''AAPL'', ev_type = ''BUY'', ev_quantity = Some 5, ev_price = Some 220, ev_now = 2\<rparr>"
  let ?e3 = "\<lparr>ev_symbol = Some ''AAPL'', ev_type = ''SELL'', ev_quantity = Some 15, ev_price = Some 225, ev_now = 3\<rparr>"
  have s1: "availableFunds (submit_all round_double [?e1] initial_portfolio) = 97858
     \<and> holdings (submit_all round_double [?e1] initial_portfolio) = [''AAPL'' \<mapsto> \<lparr>quantity = 10, avgPrice = p\<rparr>]"
    using p0 c
    by (simp add: submit_def hte_valid_snd buy_def push_order_def initial_portfolio_def Let_def round_double_int)
  have s2: "availableFunds (submit_all round_double [?e1, ?e2] initial_portfolio) = 96758
     \<and> holdings (submit_all round_double [?e1, ?e2] initial_portfolio) = [''AAPL'' \<mapsto> \<lparr>quantity = 15, avgPrice = a\<rparr>]"
    using p0 c v
    by (simp add: submit_def hte_valid_snd buy_def push_order_def initial_portfolio_def Let_def round_double_int)
  have s3: "availableFunds (submit_all round_double [?e1, ?e2, ?e3] initial_portfolio) = 100133
     \<and> holdings (submit_all round_double [?e1, ?e2, ?e3] initial_portfolio) = Map.empty"
    using p0 c v
    by (simp add: submit_def hte_valid_snd buy_def sell_def push_order_def initial_portfolio_def Let_def
          round_double_int)
  from r s1 s2 s3 bounds show ?thesis
    unfolding p_def a_def by (intro conjI) simp_all
qed


section \<open>Properties of the datafeed\<close>

lemma feed_step_timers:
  "timers (feed_step a s) = timers s @ (case a of SubscribeBars uid \<Rightarrow> [uid] | _ \<Rightarrow> [])"
  by (cases a) (simp_all add: subscribeBars_def unsubscribeBars_def timer_fires_def Let_def)

lemma feed_run_timers: "\<exists>rest. timers (feed_run as s) = timers s @ rest"
proof (induction as arbitrary: s)
  case Nil
  show ?case by simp
next
  case (Cons a as)
  from Cons [of "feed_step a s"] show ?case
    by (auto simp: feed_step_timers)
qed

lemma subscribeBars_timers: "timers (subscribeBars uid s) = timers s @ [uid]"
  by (simp add: subscribeBars_def Let_def)

lemma timer_kept:
  "length (timers s) < length (timers (feed_run as (subscribeBars uid s))) \<and>
   timers (feed_run as (subscribeBars uid s)) ! length (timers s) = uid"
proof -
  from feed_run_timers [of as "subscribeBars uid s"] obtain rest where
    "timers (feed_run as (subscribeBars uid s)) = (timers s @ [uid]) @ rest"
    by (auto simp: subscribeBars_timers)
  then show ?thesis
    by (simp add: nth_append)
qed

lemma timer_fires_emitted_for:
  "k < length (timers s) \<Longrightarrow>
   emitted_for (timers s ! k) (timer_fires k lastBar s) = emitted_for (timers s ! k) s @ [lastBar]"
  by (simp add: timer_fires_def emitted_for_def)

text \<open>
  C9, as the specification states it: once \<open>unsubscribeBars\<close> was called for a subscriber, no
  further call of \<open>onRealtimeCallback\<close> is made for it. After \<open>subscribeBars\<close> and
  \<open>unsubscribeBars\<close> for the same subscriber nothing was emitted yet, and the next firing
  of the timer emits a bar.
\<close>

theorem unsubscribeBars_counterexample:
  "emitted_for ''chart_1''
     (feed_run [SubscribeBars ''chart_1'', UnsubscribeBars ''chart_1''] feed_start) = []
   \<and> emitted_for ''chart_1''
     (feed_run [SubscribeBars ''chart_1'', UnsubscribeBars ''chart_1'',
                TimerFires 0 \<lparr>fb_time = 2000, fb_open = 151, fb_high = 156, fb_low = 146,
                              fb_close = 152, fb_volume = 500\<rparr>] feed_start)
     = [\<lparr>fb_time = 2000, fb_open = 151, fb_high = 156, fb_low = 146, fb_close = 152, fb_volume = 500\<rparr>]"
  by (simp add: feed_start_def subscribeBars_def unsubscribeBars_def timer_fires_def emitted_for_def Let_def)

text \<open>
  C9, amended: \<open>unsubscribeBars\<close> only logs; it changes neither the timers that are set nor
  what was emitted. No step clears a timer: the timer that a call of \<open>subscribeBars\<close> sets
  is still set after any further steps, calls of \<open>unsubscribeBars\<close> for its subscriber
  among them, and each firing of it passes one more bar to the callback of that
  subscription.
\<close>

theorem unsubscribeBars_only_logs:
  "timers (unsubscribeBars uid' s') = timers s'
   \<and> emitted (unsubscribeBars uid' s') = emitted s'
   \<and> length (timers s) < length (timers (feed_run as (subscribeBars uid s)))
   \<and> timers (feed_run as (subscribeBars uid s)) ! length (timers s) = uid
   \<and> emitted_for uid (timer_fires (length (timers s)) lastBar (feed_run as (subscribeBars uid s)))
       = emitted_for uid (feed_run as (subscribeBars uid s)) @ [lastBar]"
  using timer_kept [of s as uid]
    timer_fires_emitted_for [of "length (timers s)" "feed_run as (subscribeBars uid s)" lastBar]
  by (simp add: unsubscribeBars_def)

section \<open>Properties of aggregateData\<close>

lemma candle_start_mono:
  "0 < m \<Longrightarrow> bar_t a \<le> bar_t b \<Longrightarrow> candle_start m a \<le> candle_start m b"
  by (simp add: candle_start_def zdiv_mono1 mult_right_mono)

lemma sorted_candle_start:
  "0 < m \<Longrightarrow> sorted (map bar_t xs) \<Longrightarrow> sorted (map (candle_start m) xs)"
  by (induction xs) (auto simp: candle_start_mono)

lemma filter_run:
  "sorted (map key (x # xs)) \<Longrightarrow>
   filter (\<lambda>d. key d = key x) xs = takeWhile (\<lambda>y. key y = key x) xs"
proof (induction xs)
  case Nil
  show ?case by simp
next
  case (Cons y ys)
  show ?case
  proof (cases "key y = key x")
    case True
    with Cons show ?thesis by simp
  next
    case False
    with Cons.prems have "\<forall>z\<in>set ys. key z \<noteq> key x"
      by fastforce
    with False show ?thesis
      by (simp add: filter_empty_conv)
  qed
qed

lemma after_run:
  "sorted (map key (x # xs)) \<Longrightarrow>
   \<forall>b\<in>set (dropWhile (\<lambda>y. key y = key x) xs). key x < (key b :: int)"
proof (induction xs)
  case Nil
  show ?case by simp
next
  case (Cons y ys)
  show ?case
  proof (cases "key y = key x")
    case True
    with Cons show ?thesis by simp
  next
    case False
    with Cons.prems show ?thesis
      by fastforce
  qed
qed

lemma runs_concat: "concat (runs key xs) = xs"
  by (induction key xs rule: runs.induct) simp_all

lemma runs_nonempty: "g \<in> set (runs key xs) \<Longrightarrow> g \<noteq> []"
  by (induction key xs rule: runs.induct) auto

lemma foldl_volume: "foldl (\<lambda>sum d. sum + bar_v d) a xs = a + sum_list (map bar_v xs)"
  by (induction xs arbitrary: a) simp_all

lemma candle_of_volume: "bar_v (candle_of g gs) = sum_list (map bar_v (g # gs))"
  by (simp add: candle_of_def foldl_volume)

lemma aggregate_loop_runs:
  assumes "data = pre @ post"
    and "sorted (map (candle_start (interval * 60000)) post)"
    and "\<forall>a\<in>set pre. \<forall>b\<in>set post. candle_start (interval * 60000) a < candle_start (interval * 60000) b"
  shows "aggregate_loop data interval (length pre) aggregated =
         aggregated @ map (\<lambda>g. candle_of (hd g) (tl g)) (runs (candle_start (interval * 60000)) post)"
  using assms
proof (induction "candle_start (interval * 60000)" post arbitrary: pre aggregated rule: runs.induct)
  case 1
  then show ?case
    by (simp add: aggregate_loop.simps [of "pre @ []"])
next
  case (2 x xs)
  let ?key = "candle_start (interval * 60000)"
  let ?tw = "takeWhile (\<lambda>y. ?key y = ?key x) xs"
  let ?dw = "dropWhile (\<lambda>y. ?key y = ?key x) xs"
  from "2.prems" have pre: "filter (\<lambda>d. ?key d = ?key x) pre = []"
    by (auto simp: filter_empty_conv)
  from "2.prems" have group: "filter (\<lambda>d. ?key d = ?key x) data = x # ?tw"
    using filter_run [of ?key x xs] pre by simp
  have data: "data = (pre @ x # ?tw) @ ?dw"
    using "2.prems"(1) by simp
  have "map ?key ?dw = dropWhile (\<lambda>k. k = ?key x) (map ?key xs)"
    by (simp add: dropWhile_map comp_def)
  with "2.prems"(2) have sdw: "sorted (map ?key ?dw)"
    by (simp add: sorted_dropWhile)
  have sep: "\<forall>a\<in>set (pre @ x # ?tw). \<forall>b\<in>set ?dw. ?key a < ?key b"
  proof (intro ballI)
    fix a b
    assume a: "a \<in> set (pre @ x # ?tw)" and b: "b \<in> set ?dw"
    from b have bx: "b \<in> set (x # xs)"
      by (auto dest: set_dropWhileD)
    from after_run [OF "2.prems"(2)] b have xb: "?key x < ?key b"
      by blast
    from a consider "a \<in> set pre" | "a = x" | "a \<in> set ?tw"
      by auto
    then show "?key a < ?key b"
    proof cases
      case 1
      with "2.prems"(3) bx show ?thesis by blast
    next
      case 2
      with xb show ?thesis by simp
    next
      case 3
      then have "?key a = ?key x"
        by (auto dest: set_takeWhileD)
      with xb show ?thesis by simp
    qed
  qed
  have step: "aggregate_loop data interval (length pre) aggregated =
      aggregate_loop data interval (length (pre @ x # ?tw)) (aggregated @ [candle_of x ?tw])"
    using "2.prems"(1) group
    by (subst aggregate_loop.simps) (simp add: Let_def nth_append)
  from "2.hyps" [OF data sdw sep, of "aggregated @ [candle_of x ?tw]"] step
  show ?case
    by simp
qed


lemma aggregateData_runs:
  assumes "1 < interval" and "sorted (map bar_t data)"
  shows "aggregateData data interval =
         map (\<lambda>g. candle_of (hd g) (tl g)) (runs (candle_start (interval * 60000)) data)"
proof -
  from assms have "sorted (map (candle_start (interval * 60000)) data)"
    by (simp add: sorted_candle_start)
  with aggregate_loop_runs [of data "[]" data interval "[]"] assms(1) show ?thesis
    by (simp add: aggregateData_def)
qed

lemma runs_volume:
  "sum_list (map bar_v (map (\<lambda>g. candle_of (hd g) (tl g)) (runs key xs))) = sum_list (map bar_v xs)"
proof (induction key xs rule: runs.induct)
  case (1 key)
  show ?case by simp
next
  case (2 key x xs)
  have "sum_list (map bar_v xs) =
        sum_list (map bar_v (takeWhile (\<lambda>y. key y = key x) xs)) +
        sum_list (map bar_v (dropWhile (\<lambda>y. key y = key x) xs))"
    by (metis map_append sum_list.append takeWhile_dropWhile_id)
  with 2 show ?case
    by (simp add: candle_of_volume)
qed

text \<open>
  C10. \<open>aggregateData\<close> returns its input for every interval of at most 1. For an integer
  interval above 1 and bars in non-decreasing order of \<open>t\<close>, the bars returned are the
  candles of the maximal runs of bars with the same candle start: the runs are not empty
  and their concatenation is the input, so every bar of the input goes into exactly one
  bar of the output, and the volumes of the output add up to the volumes of the input.
\<close>

theorem aggregateData_volume:
  "(interval \<le> 1 \<longrightarrow> aggregateData data interval = data)
   \<and> (1 < interval \<and> sorted (map bar_t data) \<longrightarrow>
        aggregateData data interval =
          map (\<lambda>g. candle_of (hd g) (tl g)) (runs (candle_start (interval * 60000)) data)
        \<and> concat (runs (candle_start (interval * 60000)) data) = data
        \<and> [] \<notin> set (runs (candle_start (interval * 60000)) data)
        \<and> sum_list (map bar_v (aggregateData data interval)) = sum_list (map bar_v data))"
proof (intro conjI impI)
  assume "interval \<le> 1"
  then show "aggregateData data interval = data"
    by (simp add: aggregateData_def)
next
  assume a: "1 < interval \<and> sorted (map bar_t data)"
  then show r: "aggregateData data interval =
          map (\<lambda>g. candle_of (hd g) (tl g)) (runs (candle_start (interval * 60000)) data)"
    by (simp add: aggregateData_runs)
  show "concat (runs (candle_start (interval * 60000)) data) = data"
    by (rule runs_concat)
  show "[] \<notin> set (runs (candle_start (interval * 60000)) data)"
    using runs_nonempty by blast
  show "sum_list (map bar_v (aggregateData data interval)) = sum_list (map bar_v data)"
    unfolding r by (rule runs_volume)
qed

theorem aggregateData_volume_witness:
  "sorted (map bar_t
     [\<lparr>bar_t = 0, bar_o = 10, bar_h = 12, bar_l = 9, bar_c = 11, bar_v = 1000\<rparr>,
      \<lparr>bar_t = 60000, bar_o = 11, bar_h = 15, bar_l = 10, bar_c = 14, bar_v = 2000\<rparr>,
      \<lparr>bar_t = 120000, bar_o = 14, bar_h = 14, bar_l = 8, bar_c = 9, bar_v = 3000\<rparr>])
   \<and> aggregateData
     [\<lparr>bar_t = 0, bar_o = 10, bar_h = 12, bar_l = 9, bar_c = 11, bar_v = 1000\<rparr>,
      \<lparr>bar_t = 60000, bar_o = 11, bar_h = 15, bar_l = 10, bar_c = 14, bar_v = 2000\<rparr>,
      \<lparr>bar_t = 120000, bar_o = 14, bar_h = 14, bar_l = 8, bar_c = 9, bar_v = 3000\<rparr>] 2
     = [\<lparr>bar_t = 0, bar_o = 10, bar_h = 15, bar_l = 9, bar_c = 14, bar_v = 3000\<rparr>,
        \<lparr>bar_t = 120000, bar_o = 14, bar_h = 14, bar_l = 8, bar_c = 9, bar_v = 3000\<rparr>]
   \<and> sum_list (map bar_v (aggregateData
     [\<lparr>bar_t = 0, bar_o = 10, bar_h = 12, bar_l = 9, bar_c = 11, bar_v = 1000\<rparr>,
      \<lparr>bar_t = 60000, bar_o = 11, bar_h = 15, bar_l = 10, bar_c = 14, bar_v = 2000\<rparr>,
      \<lparr>bar_t = 120000, bar_o = 14, bar_h = 14, bar_l = 8, bar_c = 9, bar_v = 3000\<rparr>] 2)) = 6000
   \<and> aggregateData
     [\<lparr>bar_t = 0, bar_o = 10, bar_h = 12, bar_l = 9, bar_c = 11, bar_v = 1000\<rparr>,
      \<lparr>bar_t = 60000, bar_o = 11, bar_h = 15, bar_l = 10, bar_c = 14, bar_v = 2000\<rparr>,
      \<lparr>bar_t = 120000, bar_o = 14, bar_h = 14, bar_l = 8, bar_c = 9, bar_v = 3000\<rparr>] 1
     = [\<lparr>bar_t = 0, bar_o = 10, bar_h = 12, bar_l = 9, bar_c = 11, bar_v = 1000\<rparr>,
      \<lparr>bar_t = 60000, bar_o = 11, bar_h = 15, bar_l = 10, bar_c = 14, bar_v = 2000\<rparr>,
      \<lparr>bar_t = 120000, bar_o = 14, bar_h = 14, bar_l = 8, bar_c = 9, bar_v = 3000\<rparr>]"
proof -
  let ?data = "[\<lparr>bar_t = 0, bar_o = 10, bar_h = 12, bar_l = 9, bar_c = 11, bar_v = 1000\<rparr>,
      \<lparr>bar_t = 60000, bar_o = 11, bar_h = 15, bar_l = 10, bar_c = 14, bar_v = 2000\<rparr>,
      \<lparr>bar_t = 120000, bar_o = 14, bar_h = 14, bar_l = 8, bar_c = 9, bar_v = 3000::real\<rparr>]"
  have s: "sorted (map bar_t ?data)"
    by simp
  from s aggregateData_volume [of 2 ?data] aggregateData_volume [of 1 ?data]
  show ?thesis
    by (simp add: candle_start_def candle_of_def)
qed

end
